theory Spec2Isabelle
  imports Complex_Main "HOL-Library.Product_Lexorder"
begin

section \<open>Data model\<close>

text \<open>
  EnrollmentController.js handles a request by a chain of ORM lookups, date arithmetic
  from date-fns, one write and (in \<open>store\<close>) one mail. The embedding passes the database
  explicitly: every handler takes the state before the request and returns the response
  together with the state after it.

  A JavaScript \<open>Date\<close> is modelled by the calendar reading of the instant in the server's
  time zone. The fields are normalised (month 1 to 12, hour below 24, and so on), so that
  the order of two instants is the lexicographic order of their readings.
\<close>

record datetime =
  year :: int
  month :: nat
  day :: nat
  hours :: nat
  minutes :: nat
  seconds :: nat
  milliseconds :: nat

record student =
  s_id :: nat
  s_name :: string
  s_email :: string

text \<open>
  \<open>price\<close> is a JavaScript number; its type \<open>'n\<close> and the multiplication of the language
  are parameters of the model. \<open>duration\<close> counts months.
\<close>

record 'n plan =
  p_id :: nat
  p_title :: string
  p_price :: 'n
  p_duration :: int

record 'n enrollment =
  e_id :: nat
  student_id :: nat
  plan_id :: nat
  start_date :: datetime
  end_date :: datetime
  price :: 'n

text \<open>The argument of \<open>Mail.sendMail\<close> in \<open>store\<close>; the two dates are kept unformatted.\<close>

record 'n mail =
  mail_to :: string
  subject :: string
  template :: string
  ctx_student :: string
  ctx_start :: datetime
  ctx_plan :: string
  ctx_price :: 'n
  ctx_end :: datetime

text \<open>
  The tables behind the three Sequelize models, the sequence that numbers new enrollment
  rows, and the messages that \<open>Mail.sendMail\<close> has delivered.
\<close>

record 'n db =
  students :: "nat \<rightharpoonup> student"
  plans :: "nat \<rightharpoonup> 'n plan"
  enrollments :: "'n enrollment list"
  next_id :: nat
  outbox :: "'n mail list"

text \<open>
  A \<open>start_date\<close> that \<open>Yup.date()\<close> accepts. It is either a string in ISO 8601 form,
  which \<open>parseISO\<close> reads too, or a value in another form that only the \<open>Date\<close>
  constructor reads (\<open>March 15, 2024 10:47\<close>, a number of milliseconds). In both cases
  the \<open>datetime\<close> is the instant that the value denotes.
\<close>

datatype date_string = ISO datetime | NonISO datetime

text \<open>
  The body of a \<open>store\<close> request. \<open>None\<close> is a field that is absent or not of the type
  the schema asks for.
\<close>

record body =
  b_start_date :: "date_string option"
  b_plan_id :: "nat option"
  b_student_id :: "nat option"

text \<open>
  What a handler ends with: \<open>res.status(c).json(...)\<close>, with status 200 when the code sets
  none, or a rejected promise when an awaited call fails (no response is written by the
  handler).
\<close>

datatype 'n payload = Error string | Body "'n enrollment"

datatype 'n outcome = Json nat "'n payload" | Rejected

abbreviation ValidationFails :: "'n outcome" where
  "ValidationFails \<equiv> Json 400 (Error ''Validation fails'')"

abbreviation AlreadyEnrolled :: "'n outcome" where
  "AlreadyEnrolled \<equiv> Json 401 (Error ''Student already has an enrollment'')"

abbreviation NotEnrolled :: "'n outcome" where
  "NotEnrolled \<equiv> Json 401 (Error ''The student does not have enrollment'')"

abbreviation StudentNotFound_store :: "'n outcome" where
  "StudentNotFound_store \<equiv> Json 401 (Error ''Student no exists'')"

abbreviation StudentNotFound_update :: "'n outcome" where
  "StudentNotFound_update \<equiv> Json 401 (Error ''The Student was not found'')"

abbreviation PlanNotFound :: "'n outcome" where
  "PlanNotFound \<equiv> Json 401 (Error ''The plan was not found.'')"

text \<open>
  The two handlers word the past-date error differently: line 168 (\<open>update\<close>) separates the
  words by spaces, line 79 (\<open>store\<close>) by no-break spaces (U+00A0). Strings are sequences
  of bytes here, so the no-break space is the two bytes of its UTF-8 encoding.
\<close>

definition nbsp :: string where
  "nbsp = [CHR 0xC2, CHR 0xA0]"

abbreviation PastDate :: "'n outcome" where
  "PastDate \<equiv> Json 400 (Error ''Past date are not permitted'')"

abbreviation PastDate_store :: "'n outcome" where
  "PastDate_store \<equiv>
     Json 400 (Error (''Past'' @ nbsp @ ''date'' @ nbsp @ ''are'' @ nbsp @ ''not'' @ nbsp @ ''permitted''))"

section \<open>Date arithmetic of date-fns\<close>

text \<open>
  Modelled from the spec: \<open>startOfHour\<close>, \<open>isBefore\<close> and \<open>addMonths\<close> are functions of
  the date-fns package, which is not part of the repository. \<open>startOfHour\<close> zeroes minutes,
  seconds and milliseconds; \<open>isBefore a b\<close> holds when \<open>a\<close> is strictly earlier than \<open>b\<close>;
  \<open>addMonths\<close> moves the month field by the amount and clamps the day to the last day of
  the month reached.
\<close>

text \<open>
  Modelled from the spec: \<open>parseISO\<close> of date-fns reads a string in ISO 8601 form and
  returns an Invalid Date, here \<open>None\<close>, for anything else. \<open>instant\<close> is the date that
  the ORM makes of the raw value when it writes a date column.
\<close>

fun parseISO :: "date_string \<Rightarrow> datetime option" where
  "parseISO (ISO d) = Some d"
| "parseISO (NonISO d) = None"

fun instant :: "date_string \<Rightarrow> datetime" where
  "instant (ISO d) = d"
| "instant (NonISO d) = d"

definition startOfHour :: "datetime \<Rightarrow> datetime" where
  "startOfHour d = d\<lparr>minutes := 0, seconds := 0, milliseconds := 0\<rparr>"

definition getTime :: "datetime \<Rightarrow> int \<times> nat \<times> nat \<times> nat \<times> nat \<times> nat \<times> nat" where
  "getTime d = (year d, month d, day d, hours d, minutes d, seconds d, milliseconds d)"

definition isBefore :: "datetime \<Rightarrow> datetime \<Rightarrow> bool" where
  "isBefore a b \<longleftrightarrow> getTime a < getTime b"

definition isLeapYear :: "int \<Rightarrow> bool" where
  "isLeapYear y = (if y mod 400 = 0 then True else if y mod 100 = 0 then False else y mod 4 = 0)"

definition getDaysInMonth :: "int \<Rightarrow> nat \<Rightarrow> nat" where
  "getDaysInMonth y m =
     (if m = 2 then (if isLeapYear y then 29 else 28)
      else if m = 4 \<or> m = 6 \<or> m = 9 \<or> m = 11 then 30
      else 31)"

text \<open>
  Modelled from the spec: \<open>addMonths\<close> of date-fns, in the arithmetic form in which the
  package computes it. The month index plus the amount is normalised into a
  year and a month, the last day of that month is found, and the day of the month is kept
  unless it lies beyond that last day. The time of day is untouched.
\<close>

definition addMonths :: "datetime \<Rightarrow> int \<Rightarrow> datetime" where
  "addMonths d amount =
     (if amount = 0 then d
      else
        let desired = year d * 12 + (int (month d) - 1) + amount;
            y = desired div 12;
            m = nat (desired mod 12) + 1;
            daysInMonth = getDaysInMonth y m
        in if day d \<ge> daysInMonth
           then d\<lparr>year := y, month := m, day := daysInMonth\<rparr>
           else d\<lparr>year := y, month := m\<rparr>)"

text \<open>
  The month addition in the words of the specification: the month field is rolled forward
  once per month added (backward for a negative amount), and a day beyond the end of the
  resulting month is clamped to its last day.
\<close>

fun next_month :: "int \<times> nat \<Rightarrow> int \<times> nat" where
  "next_month (y, m) = (if m = 12 then (y + 1, 1) else (y, m + 1))"

fun prev_month :: "int \<times> nat \<Rightarrow> int \<times> nat" where
  "prev_month (y, m) = (if m = 1 then (y - 1, 12) else (y, m - 1))"

definition roll_months :: "int \<Rightarrow> int \<times> nat \<Rightarrow> int \<times> nat" where
  "roll_months n ym =
     (if 0 \<le> n then (next_month ^^ nat n) ym else (prev_month ^^ nat (- n)) ym)"

definition plus_calendar_months :: "datetime \<Rightarrow> int \<Rightarrow> datetime" where
  "plus_calendar_months d n =
     (case roll_months n (year d, month d) of
        (y, m) \<Rightarrow>
          d\<lparr>year := y, month := m,
            day := (if day d \<le> getDaysInMonth y m then day d else getDaysInMonth y m)\<rparr>)"

section \<open>JavaScript numbers\<close>

text \<open>
  A JavaScript number is an IEEE 754 binary64 value. \<open>Finite m e\<close> is the value
  \<open>m * 2 ^ e\<close> with an integer \<open>m\<close> below \<open>2 ^ 53\<close> in magnitude; the two zeros are not told
  apart. \<open>price * duration\<close> (lines 83 and 172) multiplies the price by a whole number of
  months: the exact product is rounded to 53 significant bits, to the nearest value and
  to the even one of two nearest, and a product beyond the largest finite number becomes
  an infinity. \<open>excess_bits n\<close> counts the bits of \<open>n\<close> beyond 53.
\<close>

datatype number = Finite int int | PlusInfinity | MinusInfinity | NaN

function excess_bits :: "nat \<Rightarrow> nat" where
  "excess_bits n = (if n < 2 ^ 53 then 0 else Suc (excess_bits (n div 2)))"
  by pat_completeness auto
termination
proof (relation "measure id")
  show "wf (measure id)" by simp
next
  fix n :: nat
  assume "\<not> n < 2 ^ 53"
  then have "0 < n" by (cases "n = 0") simp_all
  then show "(n div 2, n) \<in> measure id" by simp
qed

declare excess_bits.simps [simp del]

definition round_half_even :: "nat \<Rightarrow> nat \<Rightarrow> nat" where
  "round_half_even n k =
     (let q = n div 2 ^ k; r = n mod 2 ^ k
      in if 2 ^ k < 2 * r then q + 1
         else if 2 * r = 2 ^ k \<and> odd q then q + 1
         else q)"

definition round_binary64 :: "bool \<Rightarrow> nat \<Rightarrow> int \<Rightarrow> number" where
  "round_binary64 negative n e =
     (let k = excess_bits n;
          q = round_half_even n k;
          m = (if q = 2 ^ 53 then 2 ^ 52 else q);
          e' = (if q = 2 ^ 53 then e + int k + 1 else e + int k)
      in if n = 0 then Finite 0 0
         else if 971 < e' \<and> 2 ^ 53 \<le> m * 2 ^ nat (e' - 971)
           then (if negative then MinusInfinity else PlusInfinity)
         else Finite (if negative then - int m else int m) e')"

fun js_times :: "number \<Rightarrow> int \<Rightarrow> number" where
  "js_times (Finite m e) d = round_binary64 (m * d < 0) (nat \<bar>m * d\<bar>) e"
| "js_times PlusInfinity d = (if d = 0 then NaN else if 0 < d then PlusInfinity else MinusInfinity)"
| "js_times MinusInfinity d = (if d = 0 then NaN else if 0 < d then MinusInfinity else PlusInfinity)"
| "js_times NaN d = NaN"

text \<open>
  The value of a finite number as a rational, and the standard's own description of
  rounding: \<open>nearest_binary64 r x\<close> holds when the normal number \<open>x\<close> is the binary64 value
  nearest to the rational \<open>r\<close>, the one with the even significand when \<open>r\<close> lies halfway
  between two. It is the reading of a decimal literal such as \<open>129.90\<close>, and the result
  that an exact decimal product would print as.
\<close>

definition exp2 :: "int \<Rightarrow> rat" where
  "exp2 e = (if 0 \<le> e then 2 ^ nat e else 1 / 2 ^ nat (- e))"

fun value_of :: "number \<Rightarrow> rat" where
  "value_of (Finite m e) = of_int m * exp2 e"
| "value_of PlusInfinity = 0"
| "value_of MinusInfinity = 0"
| "value_of NaN = 0"

fun nearest_binary64 :: "rat \<Rightarrow> number \<Rightarrow> bool" where
  "nearest_binary64 r (Finite m e) =
     (2 ^ 52 \<le> \<bar>m\<bar> \<and> \<bar>m\<bar> < 2 ^ 53 \<and> - 1074 \<le> e \<and> e \<le> 971 \<and>
      (let v = of_int m * exp2 e;
           err = \<bar>r - v\<bar>;
           half = (if \<bar>m\<bar> = 2 ^ 52 \<and> \<bar>r\<bar> < \<bar>v\<bar> \<and> - 1074 < e then exp2 e / 4 else exp2 e / 2)
       in err < half \<or> (err = half \<and> even m)))"
| "nearest_binary64 r PlusInfinity = False"
| "nearest_binary64 r MinusInfinity = False"
| "nearest_binary64 r NaN = False"

section \<open>The controller\<close>

text \<open>\<open>Enrollment.findOne({ where: { student_id } })\<close>: the first row of that student.\<close>

definition findOne :: "nat \<Rightarrow> 'n enrollment list \<Rightarrow> 'n enrollment option" where
  "findOne sid rows = find (\<lambda>r. student_id r = sid) rows"

text \<open>The message that \<open>store\<close> hands to \<open>Mail.sendMail\<close>.\<close>

definition enrollment_mail :: "student \<Rightarrow> 'n plan \<Rightarrow> 'n enrollment \<Rightarrow> 'n mail" where
  "enrollment_mail st pl e =
     \<lparr>mail_to = s_name st @ '' <'' @ s_email st @ ''>'',
      subject = ''Matricula concluida'',
      template = ''enrollment'',
      ctx_student = s_name st,
      ctx_start = start_date e,
      ctx_plan = p_title pl,
      ctx_price = price e,
      ctx_end = end_date e\<rparr>"

text \<open>
  \<open>store\<close>, lines 31 to 116. \<open>multiply\<close> is the multiplication of JavaScript numbers, \<open>sendMail\<close>
  tells whether \<open>Mail.sendMail\<close> resolves for a message (it lives in lib/Mail, outside the
  sources at hand), and \<open>now\<close> is the value of \<open>new Date()\<close>. The row is written with the
  \<open>start_date\<close> of the body; \<open>startDate\<close>, its start of hour, serves the date check and
  the end date. The mail is awaited after the row is written and no handler catches its
  failure.

  On an Invalid Date the functions of date-fns return an Invalid Date again and \<open>isBefore\<close>
  is false, so a start date that \<open>parseISO\<close> cannot read passes the date check and reaches
  \<open>Enrollment.create\<close> with an Invalid Date as \<open>end_date\<close>. A date column cannot hold it:
  the insert fails, the awaited \<open>create\<close> rejects and no row is written. (Were the value
  accepted, \<open>format\<close> would throw on it while the mail is built, so the handler ends with a
  rejection in either case.)
\<close>

definition store ::
  "('n \<Rightarrow> int \<Rightarrow> 'n) \<Rightarrow> ('n mail \<Rightarrow> bool) \<Rightarrow> datetime \<Rightarrow> 'n db \<Rightarrow> body \<Rightarrow> 'n outcome \<times> 'n db" where
  "store multiply sendMail now db b =
     (case (b_start_date b, b_plan_id b, b_student_id b) of
        (Some start_date', Some plan_id', Some student_id') \<Rightarrow>
          (case findOne student_id' (enrollments db) of
             Some studentEnrollment \<Rightarrow> (AlreadyEnrolled, db)
           | None \<Rightarrow>
               (case students db student_id' of
                  None \<Rightarrow> (StudentNotFound_store, db)
                | Some student \<Rightarrow>
                    (case plans db plan_id' of
                       None \<Rightarrow> (PlanNotFound, db)
                     | Some plan \<Rightarrow>
                         let startDate = map_option startOfHour (parseISO start_date') in
                         if (case startDate of None \<Rightarrow> False | Some sd \<Rightarrow> isBefore sd now)
                         then (PastDate_store, db)
                         else
                           let priceTotal = multiply (p_price plan) (p_duration plan);
                               endDate = map_option (\<lambda>sd. addMonths sd (p_duration plan)) startDate
                           in (case endDate of
                                 None \<Rightarrow> (Rejected, db)
                               | Some end_date' \<Rightarrow>
                                   let enrollment =
                                         \<lparr>e_id = next_id db, student_id = student_id',
                                          plan_id = plan_id', start_date = instant start_date',
                                          end_date = end_date', price = priceTotal\<rparr>;
                                       db' = db\<lparr>enrollments := enrollments db @ [enrollment],
                                                next_id := next_id db + 1\<rparr>;
                                       msg = enrollment_mail student plan enrollment
                                   in if sendMail msg
                                      then (Json 200 (Body enrollment),
                                            db'\<lparr>outbox := outbox db' @ [msg]\<rparr>)
                                      else (Rejected, db')))))
      | _ \<Rightarrow> (ValidationFails, db))"

text \<open>
  \<open>update\<close>, lines 118 to 184, on a body that gives all three fields with the types of the
  schema and the start date in ISO 8601 form, as the instant it denotes; the schema of
  \<open>update\<close> requires no field, so such a body always passes it. The
  row is rewritten through the instance that \<open>findOne\<close> returned, that is, by its primary
  key. No mail is sent.
\<close>

definition update ::
  "('n \<Rightarrow> int \<Rightarrow> 'n) \<Rightarrow> datetime \<Rightarrow> 'n db \<Rightarrow> datetime \<Rightarrow> nat \<Rightarrow> nat \<Rightarrow> 'n outcome \<times> 'n db" where
  "update multiply now db start_date' plan_id' student_id' =
     (case findOne student_id' (enrollments db) of
        None \<Rightarrow> (NotEnrolled, db)
      | Some studentEnrollment \<Rightarrow>
          (case students db student_id' of
             None \<Rightarrow> (StudentNotFound_update, db)
           | Some student \<Rightarrow>
               (case plans db plan_id' of
                  None \<Rightarrow> (PlanNotFound, db)
                | Some plan \<Rightarrow>
                    let startDate = startOfHour start_date' in
                    if isBefore startDate now then (PastDate, db)
                    else
                      let priceTotal = multiply (p_price plan) (p_duration plan);
                          endDate = addMonths startDate (p_duration plan);
                          set_fields = (\<lambda>r. r\<lparr>student_id := student_id', plan_id := plan_id',
                                              start_date := start_date', end_date := endDate,
                                              price := priceTotal\<rparr>)
                      in (Json 200 (Body (set_fields studentEnrollment)),
                          db\<lparr>enrollments :=
                               map (\<lambda>r. if e_id r = e_id studentEnrollment then set_fields r else r)
                                 (enrollments db)\<rparr>))))"

text \<open>
  \<open>delete\<close>, lines 186 to 203, on a body that gives \<open>student_id\<close>.
  \<open>Enrollment.destroy({ where: { student_id } })\<close> removes every row of the student; the
  response carries the row that \<open>findOne\<close> returned.
\<close>

definition delete :: "'n db \<Rightarrow> nat \<Rightarrow> 'n outcome \<times> 'n db" where
  "delete db student_id' =
     (case findOne student_id' (enrollments db) of
        None \<Rightarrow> (NotEnrolled, db)
      | Some studentEnrollment \<Rightarrow>
          (Json 200 (Body studentEnrollment),
           db\<lparr>enrollments := filter (\<lambda>r. student_id r \<noteq> student_id') (enrollments db)\<rparr>))"

text \<open>Requests handled one after the other, each against the state the previous one left.\<close>

datatype request =
  Store datetime body
| Update datetime datetime nat nat
| Delete nat

fun handle :: "('n \<Rightarrow> int \<Rightarrow> 'n) \<Rightarrow> ('n mail \<Rightarrow> bool) \<Rightarrow> 'n db \<Rightarrow> request \<Rightarrow> 'n db" where
  "handle multiply sendMail db (Store now b) = snd (store multiply sendMail now db b)"
| "handle multiply sendMail db (Update now d pid sid) = snd (update multiply now db d pid sid)"
| "handle multiply sendMail db (Delete sid) = snd (delete db sid)"

definition run :: "('n \<Rightarrow> int \<Rightarrow> 'n) \<Rightarrow> ('n mail \<Rightarrow> bool) \<Rightarrow> 'n db \<Rightarrow> request list \<Rightarrow> 'n db" where
  "run multiply sendMail db reqs = foldl (handle multiply sendMail) db reqs"

text \<open>
  The invariant of the data model, and what the database itself guarantees for the primary
  key of the enrollment table: no two rows share an id, and the sequence is ahead of every
  id in use.
\<close>

definition one_per_student :: "'n db \<Rightarrow> bool" where
  "one_per_student db = distinct (map student_id (enrollments db))"

definition primary_key :: "'n db \<Rightarrow> bool" where
  "primary_key db \<longleftrightarrow>
     distinct (map e_id (enrollments db)) \<and> list_all (\<lambda>r. e_id r < next_id db) (enrollments db)"

text \<open>
  A calendar reading that names a day that exists; every \<open>Date\<close> of the program does.
\<close>

definition valid_date :: "datetime \<Rightarrow> bool" where
  "valid_date d \<longleftrightarrow>
     1 \<le> month d \<and> month d \<le> 12 \<and> 1 \<le> day d \<and> day d \<le> getDaysInMonth (year d) (month d)"

text \<open>
  Names for the row that \<open>store\<close> passes to \<open>Enrollment.create\<close> and for the assignment
  that \<open>update\<close> passes to \<open>studentEnrollment.update\<close>, as they stand in the two handlers.
\<close>

definition new_row ::
  "('n \<Rightarrow> int \<Rightarrow> 'n) \<Rightarrow> 'n db \<Rightarrow> datetime \<Rightarrow> nat \<Rightarrow> nat \<Rightarrow> 'n plan \<Rightarrow> 'n enrollment" where
  "new_row multiply db d pid sid pl =
     \<lparr>e_id = next_id db, student_id = sid, plan_id = pid, start_date = d,
      end_date = addMonths (startOfHour d) (p_duration pl),
      price = multiply (p_price pl) (p_duration pl)\<rparr>"

definition set_fields ::
  "('n \<Rightarrow> int \<Rightarrow> 'n) \<Rightarrow> datetime \<Rightarrow> nat \<Rightarrow> nat \<Rightarrow> 'n plan \<Rightarrow> 'n enrollment \<Rightarrow> 'n enrollment" where
  "set_fields multiply d pid sid pl r =
     r\<lparr>student_id := sid, plan_id := pid, start_date := d,
       end_date := addMonths (startOfHour d) (p_duration pl),
       price := multiply (p_price pl) (p_duration pl)\<rparr>"

section \<open>A small gym\<close>

text \<open>
  One student, one monthly plan with an integer price, and a few instants of 2024. The
  concrete runs below are evaluated on them.
\<close>

definition ana :: student where
  "ana = \<lparr>s_id = 1, s_name = ''Ana'', s_email = ''ana@gym.com''\<rparr>"

definition gold :: "int plan" where
  "gold = \<lparr>p_id = 1, p_title = ''Gold'', p_price = 100, p_duration = 1\<rparr>"

definition gym :: "int db" where
  "gym = \<lparr>students = [1 \<mapsto> ana], plans = [1 \<mapsto> gold], enrollments = [], next_id = 1,
          outbox = []\<rparr>"

definition jan01_0000 :: datetime where
  "jan01_0000 =
     \<lparr>year = 2024, month = 1, day = 1, hours = 0, minutes = 0, seconds = 0, milliseconds = 0\<rparr>"

definition jan31_0900 :: datetime where
  "jan31_0900 =
     \<lparr>year = 2024, month = 1, day = 31, hours = 9, minutes = 0, seconds = 0, milliseconds = 0\<rparr>"

definition feb29_0900 :: datetime where
  "feb29_0900 =
     \<lparr>year = 2024, month = 2, day = 29, hours = 9, minutes = 0, seconds = 0, milliseconds = 0\<rparr>"

definition mar01_0800 :: datetime where
  "mar01_0800 =
     \<lparr>year = 2024, month = 3, day = 1, hours = 8, minutes = 0, seconds = 0, milliseconds = 0\<rparr>"

definition mar15_104733 :: datetime where
  "mar15_104733 =
     \<lparr>year = 2024, month = 3, day = 15, hours = 10, minutes = 47, seconds = 33, milliseconds = 0\<rparr>"

definition mar15_1000 :: datetime where
  "mar15_1000 =
     \<lparr>year = 2024, month = 3, day = 15, hours = 10, minutes = 0, seconds = 0, milliseconds = 0\<rparr>"


definition apr15_1000 :: datetime where
  "apr15_1000 =
     \<lparr>year = 2024, month = 4, day = 15, hours = 10, minutes = 0, seconds = 0, milliseconds = 0\<rparr>"

definition ana_body :: body where
  "ana_body =
     \<lparr>b_start_date = Some (ISO mar15_104733), b_plan_id = Some 1, b_student_id = Some 1\<rparr>"

definition ana_row :: "int enrollment" where
  "ana_row = \<lparr>e_id = 1, student_id = 1, plan_id = 1, start_date = mar15_104733,
              end_date = apr15_1000, price = 100\<rparr>"

definition jan_row :: "int enrollment" where
  "jan_row = \<lparr>e_id = 1, student_id = 1, plan_id = 1, start_date = jan31_0900,
              end_date = feb29_0900, price = 100\<rparr>"

definition gym_enrolled :: "int db" where
  "gym_enrolled = gym\<lparr>enrollments := [ana_row], next_id := 2\<rparr>"

text \<open>
  The example of the specification: a plan of three months at 129.90, started on
  10 January 2024 at 9:00. \<open>n129_9\<close> is the number that the literal \<open>129.90\<close> denotes,
  \<open>n389_7\<close> the one that \<open>389.70\<close> denotes, and \<open>n389_7_up\<close> the next number above it,
  which prints as \<open>389.70000000000005\<close>.
\<close>

definition n129_9 :: number where
  "n129_9 = Finite 4570449934339277 (- 45)"

definition n389_7 :: number where
  "n389_7 = Finite 6855674901508915 (- 44)"

definition n389_7_up :: number where
  "n389_7_up = Finite 6855674901508916 (- 44)"

definition quarterly :: "number plan" where
  "quarterly = \<lparr>p_id = 2, p_title = ''Quarterly'', p_price = n129_9, p_duration = 3\<rparr>"

definition gym64 :: "number db" where
  "gym64 = \<lparr>students = [1 \<mapsto> ana], plans = [2 \<mapsto> quarterly], enrollments = [], next_id = 1,
            outbox = []\<rparr>"

definition jan10_0900 :: datetime where
  "jan10_0900 =
     \<lparr>year = 2024, month = 1, day = 10, hours = 9, minutes = 0, seconds = 0, milliseconds = 0\<rparr>"

definition apr10_0900 :: datetime where
  "apr10_0900 =
     \<lparr>year = 2024, month = 4, day = 10, hours = 9, minutes = 0, seconds = 0, milliseconds = 0\<rparr>"

definition quarterly_body :: body where
  "quarterly_body =
     \<lparr>b_start_date = Some (ISO jan10_0900), b_plan_id = Some 2, b_student_id = Some 1\<rparr>"

definition quarterly_row :: "number enrollment" where
  "quarterly_row = \<lparr>e_id = 1, student_id = 1, plan_id = 2, start_date = jan10_0900,
                    end_date = apr10_0900, price = n389_7_up\<rparr>"

definition gym64_enrolled :: "number db" where
  "gym64_enrolled = gym64\<lparr>enrollments := [quarterly_row], next_id := 2\<rparr>"

text \<open>
  A run of six requests: an enrollment, a second attempt, a change of date, two deletions
  and a new enrollment.
\<close>

definition busy_day :: "request list" where
  "busy_day =
     [Store mar01_0800 ana_body, Store mar01_0800 ana_body,
      Update jan01_0000 jan31_0900 1 1, Delete 1, Delete 1, Store mar01_0800 ana_body]"

lemmas example_defs = ana_def gold_def gym_def jan01_0000_def jan31_0900_def feb29_0900_def
  mar01_0800_def mar15_104733_def mar15_1000_def apr15_1000_def ana_body_def ana_row_def
  jan_row_def gym_enrolled_def

lemmas price_example_defs = n129_9_def n389_7_def n389_7_up_def quarterly_def gym64_def
  jan10_0900_def apr10_0900_def quarterly_body_def quarterly_row_def gym64_enrolled_def

lemmas date_defs = startOfHour_def isBefore_def getTime_def addMonths_def getDaysInMonth_def
  isLeapYear_def

lemmas number_defs = round_binary64_def round_half_even_def excess_bits.simps exp2_def

section \<open>Month arithmetic\<close>

text \<open>
  \<open>addMonths\<close> normalises a month count by division; the specification rolls the month
  field step by step. The two agree on every valid date and every amount.
\<close>

lemma shift_div_mod:
  fixes t q r :: int
  assumes "t = 12 * q + r" "0 \<le> r" "r < 12"
  shows "t div 12 = q \<and> t mod 12 = r"
  using assms int_div_pos_eq [of t 12 q r] int_mod_pos_eq [of t 12 q r] by simp

lemma next_month_step:
  fixes t :: int
  shows "next_month (t div 12, nat (t mod 12) + 1) = ((t + 1) div 12, nat ((t + 1) mod 12) + 1)"
proof -
  define q r where "q = t div 12" and "r = t mod 12"
  have t: "t = 12 * q + r" and r: "0 \<le> r" "r < 12" by (simp_all add: q_def r_def)
  have lhs: "next_month (q, nat r + 1) = (if r = 11 then (q + 1, 1) else (q, nat r + 2))"
    using r by auto
  have "(t + 1) div 12 = (if r = 11 then q + 1 else q) \<and>
        (t + 1) mod 12 = (if r = 11 then 0 else r + 1)"
  proof (cases "r = 11")
    case True
    with t have "t + 1 = 12 * (q + 1) + 0" by simp
    then have "(t + 1) div 12 = q + 1 \<and> (t + 1) mod 12 = 0"
      by (rule shift_div_mod) simp_all
    with True show ?thesis by simp
  next
    case False
    with r have "0 \<le> r + 1" "r + 1 < 12" by simp_all
    moreover from t have "t + 1 = 12 * q + (r + 1)" by simp
    ultimately have "(t + 1) div 12 = q \<and> (t + 1) mod 12 = r + 1"
      using shift_div_mod by blast
    with False show ?thesis by simp
  qed
  with lhs r show ?thesis
    unfolding q_def [symmetric] r_def [symmetric] by (simp add: nat_add_distrib)
qed

lemma prev_month_step:
  fixes t :: int
  shows "prev_month (t div 12, nat (t mod 12) + 1) = ((t - 1) div 12, nat ((t - 1) mod 12) + 1)"
proof -
  define q r where "q = t div 12" and "r = t mod 12"
  have t: "t = 12 * q + r" and r: "0 \<le> r" "r < 12" by (simp_all add: q_def r_def)
  have lhs: "prev_month (q, nat r + 1) = (if r = 0 then (q - 1, 12) else (q, nat r))"
    using r by auto
  have "(t - 1) div 12 = (if r = 0 then q - 1 else q) \<and>
        (t - 1) mod 12 = (if r = 0 then 11 else r - 1)"
  proof (cases "r = 0")
    case True
    with t have "t - 1 = 12 * (q - 1) + 11" by simp
    then have "(t - 1) div 12 = q - 1 \<and> (t - 1) mod 12 = 11"
      by (rule shift_div_mod) simp_all
    with True show ?thesis by simp
  next
    case False
    with r have "0 \<le> r - 1" "r - 1 < 12" by simp_all
    moreover from t have "t - 1 = 12 * q + (r - 1)" by simp
    ultimately have "(t - 1) div 12 = q \<and> (t - 1) mod 12 = r - 1"
      using shift_div_mod by blast
    with False show ?thesis by simp
  qed
  with lhs r show ?thesis
    unfolding q_def [symmetric] r_def [symmetric] by (auto simp: nat_diff_distrib)
qed

lemma next_month_funpow:
  "(next_month ^^ k) (t div 12, nat (t mod 12) + 1) = ((t + int k) div 12, nat ((t + int k) mod 12) + 1)"
proof (induction k)
  case 0
  show ?case by simp
next
  case (Suc k)
  have e: "t + int (Suc k) = t + int k + 1" by simp
  have "(next_month ^^ Suc k) (t div 12, nat (t mod 12) + 1) =
        next_month ((next_month ^^ k) (t div 12, nat (t mod 12) + 1))" by simp
  also have "\<dots> = next_month ((t + int k) div 12, nat ((t + int k) mod 12) + 1)"
    by (simp only: Suc)
  also have "\<dots> = ((t + int k + 1) div 12, nat ((t + int k + 1) mod 12) + 1)"
    by (rule next_month_step)
  finally show ?case unfolding e .
qed

lemma prev_month_funpow:
  "(prev_month ^^ k) (t div 12, nat (t mod 12) + 1) = ((t - int k) div 12, nat ((t - int k) mod 12) + 1)"
proof (induction k)
  case 0
  show ?case by simp
next
  case (Suc k)
  have e: "t - int (Suc k) = t - int k - 1" by simp
  have "(prev_month ^^ Suc k) (t div 12, nat (t mod 12) + 1) =
        prev_month ((prev_month ^^ k) (t div 12, nat (t mod 12) + 1))" by simp
  also have "\<dots> = prev_month ((t - int k) div 12, nat ((t - int k) mod 12) + 1)"
    by (simp only: Suc)
  also have "\<dots> = ((t - int k - 1) div 12, nat ((t - int k - 1) mod 12) + 1)"
    by (rule prev_month_step)
  finally show ?case unfolding e .
qed

lemma roll_months_closed:
  assumes "1 \<le> m" "m \<le> 12"
  shows "roll_months n (y, m) =
         ((y * 12 + (int m - 1) + n) div 12, nat ((y * 12 + (int m - 1) + n) mod 12) + 1)"
proof -
  define t where "t = y * 12 + (int m - 1)"
  from assms have "t = 12 * y + (int m - 1)" "0 \<le> int m - 1" "int m - 1 < 12"
    by (simp_all add: t_def)
  then have "t div 12 = y \<and> t mod 12 = int m - 1" by (rule shift_div_mod)
  with assms have start: "(y, m) = (t div 12, nat (t mod 12) + 1)" by simp
  show ?thesis
  proof (cases "0 \<le> n")
    case True
    then have "roll_months n (y, m) = (next_month ^^ nat n) (t div 12, nat (t mod 12) + 1)"
      using start by (simp add: roll_months_def)
    also have "\<dots> = ((t + int (nat n)) div 12, nat ((t + int (nat n)) mod 12) + 1)"
      by (rule next_month_funpow)
    finally show ?thesis using True by (simp add: t_def)
  next
    case False
    then have "roll_months n (y, m) = (prev_month ^^ nat (- n)) (t div 12, nat (t mod 12) + 1)"
      using start by (simp add: roll_months_def)
    also have "\<dots> = ((t - int (nat (- n))) div 12, nat ((t - int (nat (- n))) mod 12) + 1)"
      by (rule prev_month_funpow)
    finally show ?thesis using False by (simp add: t_def)
  qed
qed

lemma addMonths_refines:
  assumes "valid_date d"
  shows "addMonths d n = plus_calendar_months d n"
proof (cases "n = 0")
  case True
  with assms show ?thesis
    by (simp add: addMonths_def plus_calendar_months_def roll_months_def valid_date_def)
next
  case False
  from assms have m: "1 \<le> month d" "month d \<le> 12" by (simp_all add: valid_date_def)
  show ?thesis
    using False
    by (simp add: addMonths_def plus_calendar_months_def roll_months_closed [OF m] Let_def)
qed

lemma valid_date_startOfHour: "valid_date (startOfHour d) = valid_date d"
  by (simp add: valid_date_def startOfHour_def)

section \<open>The handlers, case by case\<close>

lemma findOne_None_iff: "findOne sid rows = None \<longleftrightarrow> (\<forall>r\<in>set rows. student_id r \<noteq> sid)"
  by (induction rows) (auto simp: findOne_def)

lemma findOne_SomeD: "findOne sid rows = Some e \<Longrightarrow> e \<in> set rows \<and> student_id e = sid"
  by (induction rows) (auto simp: findOne_def split: if_splits)

lemma findOne_append:
  "findOne sid (rows @ [e]) =
     (case findOne sid rows of Some r \<Rightarrow> Some r
      | None \<Rightarrow> if student_id e = sid then Some e else None)"
  by (induction rows) (auto simp: findOne_def)

lemma store_persisting:
  assumes "findOne sid (enrollments db) = None" "students db sid = Some st"
    "plans db pid = Some pl" "\<not> isBefore (startOfHour d) now"
  shows "store multiply sendMail now db
           \<lparr>b_start_date = Some (ISO d), b_plan_id = Some pid, b_student_id = Some sid\<rparr> =
     (let e = new_row multiply db d pid sid pl;
          db' = db\<lparr>enrollments := enrollments db @ [e], next_id := next_id db + 1\<rparr>
      in if sendMail (enrollment_mail st pl e)
         then (Json 200 (Body e), db'\<lparr>outbox := outbox db @ [enrollment_mail st pl e]\<rparr>)
         else (Rejected, db'))"
  using assms by (simp add: store_def new_row_def Let_def)

lemma store_cases:
  obtains
    (invalid) "b_start_date b = None \<or> b_plan_id b = None \<or> b_student_id b = None"
      "store multiply sendMail now db b = (ValidationFails, db)"
  | (enrolled) ds pid sid where
      "b = \<lparr>b_start_date = Some ds, b_plan_id = Some pid, b_student_id = Some sid\<rparr>"
      "findOne sid (enrollments db) \<noteq> None"
      "store multiply sendMail now db b = (AlreadyEnrolled, db)"
  | (no_student) ds pid sid where
      "b = \<lparr>b_start_date = Some ds, b_plan_id = Some pid, b_student_id = Some sid\<rparr>"
      "findOne sid (enrollments db) = None" "students db sid = None"
      "store multiply sendMail now db b = (StudentNotFound_store, db)"
  | (no_plan) ds pid sid where
      "b = \<lparr>b_start_date = Some ds, b_plan_id = Some pid, b_student_id = Some sid\<rparr>"
      "findOne sid (enrollments db) = None" "students db sid \<noteq> None" "plans db pid = None"
      "store multiply sendMail now db b = (PlanNotFound, db)"
  | (unparsed) d pid sid where
      "b = \<lparr>b_start_date = Some (NonISO d), b_plan_id = Some pid, b_student_id = Some sid\<rparr>"
      "findOne sid (enrollments db) = None" "students db sid \<noteq> None" "plans db pid \<noteq> None"
      "store multiply sendMail now db b = (Rejected, db)"
  | (past) d pid sid where
      "b = \<lparr>b_start_date = Some (ISO d), b_plan_id = Some pid, b_student_id = Some sid\<rparr>"
      "findOne sid (enrollments db) = None" "students db sid \<noteq> None" "plans db pid \<noteq> None"
      "isBefore (startOfHour d) now"
      "store multiply sendMail now db b = (PastDate_store, db)"
  | (persisted) d pid sid st pl where
      "b = \<lparr>b_start_date = Some (ISO d), b_plan_id = Some pid, b_student_id = Some sid\<rparr>"
      "findOne sid (enrollments db) = None" "students db sid = Some st" "plans db pid = Some pl"
      "\<not> isBefore (startOfHour d) now"
proof (cases "b_start_date b")
  case None
  then show ?thesis using invalid by (simp add: store_def)
next
  case d: (Some ds)
  show ?thesis
  proof (cases "b_plan_id b")
    case None
    then show ?thesis using invalid d by (simp add: store_def)
  next
    case p: (Some pid)
    show ?thesis
    proof (cases "b_student_id b")
      case None
      then show ?thesis using invalid d p by (simp add: store_def)
    next
      case s: (Some sid)
      from d p s
      have b: "b = \<lparr>b_start_date = Some ds, b_plan_id = Some pid, b_student_id = Some sid\<rparr>"
        by (cases b) simp
      show ?thesis
      proof (cases "findOne sid (enrollments db)")
        case (Some a)
        then show ?thesis using enrolled [OF b] b by (simp add: store_def)
      next
        case f: None
        show ?thesis
        proof (cases "students db sid")
          case None
          then show ?thesis using no_student [OF b f] b f by (simp add: store_def)
        next
          case st: (Some st)
          show ?thesis
          proof (cases "plans db pid")
            case None
            then show ?thesis using no_plan [OF b f] b f st by (simp add: store_def)
          next
            case pl: (Some pl)
            show ?thesis
            proof (cases ds)
              case (NonISO d)
              then show ?thesis using unparsed [of d pid sid] b f st pl by (simp add: store_def)
            next
              case iso: (ISO d)
              show ?thesis
              proof (cases "isBefore (startOfHour d) now")
                case True
                then show ?thesis using past [of d pid sid] b f st pl iso by (simp add: store_def)
              next
                case False
                then show ?thesis using persisted [of d pid sid st pl] b f st pl iso by simp
              qed
            qed
          qed
        qed
      qed
    qed
  qed
qed

lemma update_rewriting:
  assumes "findOne sid (enrollments db) = Some old" "students db sid = Some st"
    "plans db pid = Some pl" "\<not> isBefore (startOfHour d) now"
  shows "update multiply now db d pid sid =
     (Json 200 (Body (set_fields multiply d pid sid pl old)),
      db\<lparr>enrollments :=
           map (\<lambda>r. if e_id r = e_id old then set_fields multiply d pid sid pl r else r)
             (enrollments db)\<rparr>)"
  using assms by (simp add: update_def set_fields_def Let_def)

lemma update_cases:
  obtains
    (not_enrolled) "findOne sid (enrollments db) = None"
      "update multiply now db d pid sid = (NotEnrolled, db)"
  | (no_student) "findOne sid (enrollments db) \<noteq> None" "students db sid = None"
      "update multiply now db d pid sid = (StudentNotFound_update, db)"
  | (no_plan) "findOne sid (enrollments db) \<noteq> None" "students db sid \<noteq> None" "plans db pid = None"
      "update multiply now db d pid sid = (PlanNotFound, db)"
  | (past) "findOne sid (enrollments db) \<noteq> None" "students db sid \<noteq> None" "plans db pid \<noteq> None"
      "isBefore (startOfHour d) now"
      "update multiply now db d pid sid = (PastDate, db)"
  | (rewritten) old st pl where
      "findOne sid (enrollments db) = Some old" "students db sid = Some st" "plans db pid = Some pl"
      "\<not> isBefore (startOfHour d) now"
proof (cases "findOne sid (enrollments db)")
  case None
  then show ?thesis using not_enrolled by (simp add: update_def)
next
  case f: (Some old)
  show ?thesis
  proof (cases "students db sid")
    case None
    then show ?thesis using no_student f by (simp add: update_def)
  next
    case st: (Some st)
    show ?thesis
    proof (cases "plans db pid")
      case None
      then show ?thesis using no_plan f st by (simp add: update_def)
    next
      case pl: (Some pl)
      show ?thesis
      proof (cases "isBefore (startOfHour d) now")
        case True
        then show ?thesis using past f st pl by (simp add: update_def)
      next
        case False
        then show ?thesis using rewritten [OF f st pl] by simp
      qed
    qed
  qed
qed

section \<open>The stored start date\<close>

text \<open>
  Claim C1: after a successful \<open>store\<close> or \<open>update\<close> the \<open>start_date\<close> of the row is the
  start date of the request truncated to the start of the hour. Both handlers compute that
  truncated date (\<open>startDate\<close>) and use it for the date check and for \<open>end_date\<close>, but
  the row is written with \<open>start_date\<close>, the value of the body. For a request at 10:47:33
  the row keeps 10:47:33, next to an end date at 10:00:00.
\<close>

theorem start_date_persisted_untruncated:
  "fst (store (\<lambda>p d. p * d) (\<lambda>m. True) mar01_0800 gym ana_body) = Json 200 (Body ana_row) \<and>
   enrollments (snd (store (\<lambda>p d. p * d) (\<lambda>m. True) mar01_0800 gym ana_body)) = [ana_row] \<and>
   fst (update (\<lambda>p d. p * d) mar01_0800 gym_enrolled mar15_104733 1 1) = Json 200 (Body ana_row) \<and>
   enrollments (snd (update (\<lambda>p d. p * d) mar01_0800 gym_enrolled mar15_104733 1 1)) = [ana_row] \<and>
   start_date ana_row = mar15_104733 \<and>
   end_date ana_row = apr15_1000 \<and>
   startOfHour mar15_104733 = mar15_1000 \<and>
   start_date ana_row \<noteq> startOfHour mar15_104733"
  by (simp add: store_def update_def findOne_def example_defs date_defs Let_def)

section \<open>One enrollment per student: the check of \<open>store\<close>\<close>

text \<open>
  Claim C4: when the student already has an enrollment, \<open>store\<close> answers
  \<open>AlreadyEnrolled\<close> and writes nothing, whatever the student and plan tables hold (the
  answer is reached before either is read); and a second \<open>store\<close> for the same student,
  right after a successful one, answers \<open>AlreadyEnrolled\<close>.
\<close>

theorem store_already_enrolled:
  "(r \<in> set (enrollments db) \<and> student_id r = sid \<longrightarrow>
      store multiply sendMail now db
        \<lparr>b_start_date = Some ds, b_plan_id = Some pid, b_student_id = Some sid\<rparr> =
      (AlreadyEnrolled, db)) \<and>
   (fst (store multiply sendMail now db
          \<lparr>b_start_date = Some ds, b_plan_id = Some pid, b_student_id = Some sid\<rparr>) =
      Json 200 (Body e) \<longrightarrow>
    store multiply2 sendMail2 now2
      (snd (store multiply sendMail now db
             \<lparr>b_start_date = Some ds, b_plan_id = Some pid, b_student_id = Some sid\<rparr>))
      \<lparr>b_start_date = Some ds2, b_plan_id = Some pid2, b_student_id = Some sid\<rparr> =
    (AlreadyEnrolled,
     snd (store multiply sendMail now db
           \<lparr>b_start_date = Some ds, b_plan_id = Some pid, b_student_id = Some sid\<rparr>)))"
proof (intro conjI impI)
  assume "r \<in> set (enrollments db) \<and> student_id r = sid"
  then have "findOne sid (enrollments db) \<noteq> None" by (auto simp: findOne_None_iff)
  then show "store multiply sendMail now db
        \<lparr>b_start_date = Some ds, b_plan_id = Some pid, b_student_id = Some sid\<rparr> =
      (AlreadyEnrolled, db)"
    by (auto simp: store_def)
next
  let ?b = "\<lparr>b_start_date = Some ds, b_plan_id = Some pid, b_student_id = Some sid\<rparr>"
  let ?b2 = "\<lparr>b_start_date = Some ds2, b_plan_id = Some pid2, b_student_id = Some sid\<rparr>"
  assume ok: "fst (store multiply sendMail now db ?b) = Json 200 (Body e)"
  have "findOne sid (enrollments (snd (store multiply sendMail now db ?b))) \<noteq> None"
  proof (cases rule: store_cases [of ?b multiply sendMail now db])
    case (persisted d' pid' sid' st pl)
    then have eq: "ds = ISO d'" "pid' = pid" "sid' = sid" by simp_all
    show ?thesis
      using persisted(2-5) unfolding eq
      by (simp add: store_persisting Let_def findOne_append new_row_def)
  qed (use ok in simp_all)
  then show "store multiply2 sendMail2 now2 (snd (store multiply sendMail now db ?b)) ?b2 =
    (AlreadyEnrolled, snd (store multiply sendMail now db ?b))"
    by (auto simp: store_def)
qed

theorem store_already_enrolled_witness:
  "(ana_row \<in> set (enrollments gym_enrolled) \<and> student_id ana_row = 1) \<and>
   store (\<lambda>p d. p * d) (\<lambda>m. True) mar01_0800 gym_enrolled
     \<lparr>b_start_date = Some (ISO mar15_104733), b_plan_id = Some 1, b_student_id = Some 1\<rparr> =
   (AlreadyEnrolled, gym_enrolled) \<and>
   fst (store (\<lambda>p d. p * d) (\<lambda>m. True) mar01_0800 gym
         \<lparr>b_start_date = Some (ISO mar15_104733), b_plan_id = Some 1, b_student_id = Some 1\<rparr>) =
   Json 200 (Body ana_row) \<and>
   fst (store (\<lambda>p d. p * d) (\<lambda>m. True) mar01_0800
         (snd (store (\<lambda>p d. p * d) (\<lambda>m. True) mar01_0800 gym
                \<lparr>b_start_date = Some (ISO mar15_104733), b_plan_id = Some 1, b_student_id = Some 1\<rparr>))
         \<lparr>b_start_date = Some (ISO jan31_0900), b_plan_id = Some 1, b_student_id = Some 1\<rparr>) =
   AlreadyEnrolled"
proof -
  have r: "ana_row \<in> set (enrollments gym_enrolled) \<and> student_id ana_row = 1"
    by (simp add: gym_enrolled_def ana_row_def)
  have ok: "fst (store (\<lambda>p d. p * d) (\<lambda>m. True) mar01_0800 gym
         \<lparr>b_start_date = Some (ISO mar15_104733), b_plan_id = Some 1, b_student_id = Some 1\<rparr>) =
      Json 200 (Body ana_row)"
    by (simp add: store_def findOne_def example_defs date_defs Let_def)
  from r store_already_enrolled [of ana_row gym_enrolled 1 "\<lambda>p d. p * d" "\<lambda>m. True" mar01_0800
      "ISO mar15_104733" 1]
  have first: "store (\<lambda>p d. p * d) (\<lambda>m. True) mar01_0800 gym_enrolled
     \<lparr>b_start_date = Some (ISO mar15_104733), b_plan_id = Some 1, b_student_id = Some 1\<rparr> =
     (AlreadyEnrolled, gym_enrolled)"
    by blast
  from ok store_already_enrolled [of ana_row gym 1 "\<lambda>p d. p * d" "\<lambda>m. True" mar01_0800
      "ISO mar15_104733" 1 ana_row "\<lambda>p d. p * d" "\<lambda>m. True" mar01_0800 "ISO jan31_0900" 1]
  have "store (\<lambda>p d. p * d) (\<lambda>m. True) mar01_0800
         (snd (store (\<lambda>p d. p * d) (\<lambda>m. True) mar01_0800 gym
                \<lparr>b_start_date = Some (ISO mar15_104733), b_plan_id = Some 1, b_student_id = Some 1\<rparr>))
         \<lparr>b_start_date = Some (ISO jan31_0900), b_plan_id = Some 1, b_student_id = Some 1\<rparr> =
     (AlreadyEnrolled,
      snd (store (\<lambda>p d. p * d) (\<lambda>m. True) mar01_0800 gym
                \<lparr>b_start_date = Some (ISO mar15_104733), b_plan_id = Some 1, b_student_id = Some 1\<rparr>))"
    by blast
  then have second: "fst (store (\<lambda>p d. p * d) (\<lambda>m. True) mar01_0800
         (snd (store (\<lambda>p d. p * d) (\<lambda>m. True) mar01_0800 gym
                \<lparr>b_start_date = Some (ISO mar15_104733), b_plan_id = Some 1, b_student_id = Some 1\<rparr>))
         \<lparr>b_start_date = Some (ISO jan31_0900), b_plan_id = Some 1, b_student_id = Some 1\<rparr>) =
     AlreadyEnrolled"
    by simp
  from r first ok second show ?thesis by blast
qed

section \<open>The order of the checks in \<open>update\<close>\<close>

text \<open>
  Claim C10: \<open>update\<close> looks for the enrollment before it looks for the student and the
  plan. For a student without an enrollment it answers \<open>NotEnrolled\<close>, also when the
  student id or the plan id resolves to nothing, so \<open>NotEnrolled\<close> goes before
  \<open>StudentNotFound\<close> and \<open>PlanNotFound\<close>.
\<close>

theorem update_checks_enrollment_first:
  assumes "\<forall>r\<in>set (enrollments db). student_id r \<noteq> sid"
  shows "update multiply now db d pid sid = (NotEnrolled, db) \<and>
         fst (update multiply now db d pid sid) \<noteq> StudentNotFound_update \<and>
         fst (update multiply now db d pid sid) \<noteq> PlanNotFound"
proof -
  from assms have "findOne sid (enrollments db) = None" by (simp add: findOne_None_iff)
  then show ?thesis by (simp add: update_def)
qed

theorem update_checks_enrollment_first_witness:
  "enrollments gym = [] \<and> students gym 7 = None \<and> plans gym 9 = None \<and>
   update (\<lambda>p d. p * d) mar01_0800 gym mar15_104733 9 7 = (NotEnrolled, gym)"
proof -
  have e: "enrollments gym = []" by (simp add: gym_def)
  then have h: "\<forall>r\<in>set (enrollments gym). student_id r \<noteq> 7" by simp
  have "students gym 7 = None \<and> plans gym 9 = None" by (simp add: gym_def)
  with e update_checks_enrollment_first [OF h, of "\<lambda>p d. p * d" mar01_0800 mar15_104733 9]
  show ?thesis by blast
qed

section \<open>The end date\<close>

text \<open>
  Claim C7: after a successful \<open>store\<close> or \<open>update\<close> with plan \<open>pl\<close>, the \<open>end_date\<close> of the
  persisted row is the truncated start date plus \<open>p_duration pl\<close> calendar months: the
  month field rolled once per month, the day of the month kept where the resulting month
  has it and clamped to its last day otherwise, the time of day unchanged. For \<open>store\<close> the
  table after the call is the old one followed by the returned row, which has that end
  date, and every row that the call adds has it (also when the mail fails afterwards); for
  \<open>update\<close> the returned row is in the table after the call, and every row with its id
  has that end date. 31 January 2024 plus one month is 29 February 2024.
\<close>

theorem end_date_adds_calendar_months:
  assumes "valid_date d" and "plans db pid = Some pl"
  shows "(fst (store multiply sendMail now db
             \<lparr>b_start_date = Some (ISO d), b_plan_id = Some pid, b_student_id = Some sid\<rparr>) =
            Json 200 (Body e) \<longrightarrow>
          enrollments (snd (store multiply sendMail now db
             \<lparr>b_start_date = Some (ISO d), b_plan_id = Some pid, b_student_id = Some sid\<rparr>)) =
            enrollments db @ [e] \<and>
          end_date e = plus_calendar_months (startOfHour d) (p_duration pl)) \<and>
         (\<forall>r\<in>set (enrollments (snd (store multiply sendMail now db
             \<lparr>b_start_date = Some (ISO d), b_plan_id = Some pid, b_student_id = Some sid\<rparr>))).
            r \<notin> set (enrollments db) \<longrightarrow>
            end_date r = plus_calendar_months (startOfHour d) (p_duration pl)) \<and>
         (fst (update multiply now db d pid sid) = Json 200 (Body e') \<longrightarrow>
          e' \<in> set (enrollments (snd (update multiply now db d pid sid))) \<and>
          end_date e' = plus_calendar_months (startOfHour d) (p_duration pl) \<and>
          (\<forall>r\<in>set (enrollments (snd (update multiply now db d pid sid))).
             e_id r = e_id e' \<longrightarrow>
             end_date r = plus_calendar_months (startOfHour d) (p_duration pl)))"
proof -
  let ?b = "\<lparr>b_start_date = Some (ISO d), b_plan_id = Some pid, b_student_id = Some sid\<rparr>"
  let ?end = "plus_calendar_months (startOfHour d) (p_duration pl)"
  have refine: "addMonths (startOfHour d) n = plus_calendar_months (startOfHour d) n" for n
    using assms(1) by (simp add: addMonths_refines valid_date_startOfHour)
  have stored: "enrollments (snd (store multiply sendMail now db ?b)) = enrollments db \<or>
      enrollments (snd (store multiply sendMail now db ?b)) =
        enrollments db @ [new_row multiply db d pid sid pl]"
  proof (cases rule: store_cases [of ?b multiply sendMail now db])
    case (persisted d' pid' sid' st pl')
    then have eq: "d' = d" "pid' = pid" "sid' = sid" "pl' = pl" using assms(2) by simp_all
    from persisted(2-5) show ?thesis
      unfolding eq by (simp add: store_persisting Let_def)
  qed simp_all
  have new_end: "end_date (new_row multiply db d pid sid pl) = ?end"
    by (simp add: new_row_def refine)
  have s1: "enrollments (snd (store multiply sendMail now db ?b)) = enrollments db @ [e] \<and>
      end_date e = ?end"
    if ok: "fst (store multiply sendMail now db ?b) = Json 200 (Body e)"
  proof (cases rule: store_cases [of ?b multiply sendMail now db])
    case (persisted d' pid' sid' st pl')
    then have eq: "d' = d" "pid' = pid" "sid' = sid" "pl' = pl" using assms(2) by simp_all
    from ok persisted(2-5) have "e = new_row multiply db d pid sid pl \<and>
        enrollments (snd (store multiply sendMail now db ?b)) = enrollments db @ [e]"
      unfolding eq by (simp add: store_persisting Let_def split: if_splits)
    with new_end show ?thesis by simp
  qed (use ok in simp_all)
  have s2: "\<forall>r\<in>set (enrollments (snd (store multiply sendMail now db ?b))).
      r \<notin> set (enrollments db) \<longrightarrow> end_date r = ?end"
    using stored new_end by auto
  have u: "e' \<in> set (enrollments (snd (update multiply now db d pid sid))) \<and>
      end_date e' = ?end \<and>
      (\<forall>r\<in>set (enrollments (snd (update multiply now db d pid sid))).
         e_id r = e_id e' \<longrightarrow> end_date r = ?end)"
    if ok: "fst (update multiply now db d pid sid) = Json 200 (Body e')"
  proof (cases rule: update_cases [of sid db multiply now d pid])
    case (rewritten old st pl')
    then have eq: "pl' = pl" using assms(2) by simp
    note upd = update_rewriting [OF rewritten [unfolded eq], of multiply]
    from ok upd have e': "e' = set_fields multiply d pid sid pl old" by simp
    from rewritten(1) have old: "old \<in> set (enrollments db)" using findOne_SomeD by blast
    have id: "e_id e' = e_id old" by (simp add: e' set_fields_def)
    have "e' \<in> set (enrollments (snd (update multiply now db d pid sid)))"
      using old by (auto simp: upd e' image_iff intro!: bexI [of _ old])
    moreover have "end_date e' = ?end" by (simp add: e' set_fields_def refine)
    moreover have "\<forall>r\<in>set (enrollments (snd (update multiply now db d pid sid))).
         e_id r = e_id e' \<longrightarrow> end_date r = ?end"
      by (auto simp: upd id set_fields_def refine)
    ultimately show ?thesis by blast
  qed (use ok in simp_all)
  from s1 s2 u show ?thesis by blast
qed

theorem end_date_adds_calendar_months_witness:
  "valid_date jan31_0900 \<and> plans gym 1 = Some gold \<and> plans gym_enrolled 1 = Some gold \<and>
   fst (store (\<lambda>p d. p * d) (\<lambda>m. True) jan01_0000 gym
         \<lparr>b_start_date = Some (ISO jan31_0900), b_plan_id = Some 1, b_student_id = Some 1\<rparr>) =
     Json 200 (Body jan_row) \<and>
   enrollments (snd (store (\<lambda>p d. p * d) (\<lambda>m. True) jan01_0000 gym
         \<lparr>b_start_date = Some (ISO jan31_0900), b_plan_id = Some 1, b_student_id = Some 1\<rparr>)) =
     [jan_row] \<and>
   fst (update (\<lambda>p d. p * d) jan01_0000 gym_enrolled jan31_0900 1 1) = Json 200 (Body jan_row) \<and>
   jan_row \<in> set (enrollments (snd (update (\<lambda>p d. p * d) jan01_0000 gym_enrolled jan31_0900 1 1))) \<and>
   end_date jan_row = plus_calendar_months (startOfHour jan31_0900) (p_duration gold) \<and>
   plus_calendar_months (startOfHour jan31_0900) (p_duration gold) = feb29_0900"
proof -
  have v: "valid_date jan31_0900"
    by (simp add: valid_date_def jan31_0900_def date_defs)
  have p: "plans gym 1 = Some gold" by (simp add: gym_def)
  have p': "plans gym_enrolled 1 = Some gold" by (simp add: gym_def gym_enrolled_def)
  have g: "enrollments gym = []" by (simp add: gym_def)
  have s: "fst (store (\<lambda>p d. p * d) (\<lambda>m. True) jan01_0000 gym
         \<lparr>b_start_date = Some (ISO jan31_0900), b_plan_id = Some 1, b_student_id = Some 1\<rparr>) =
     Json 200 (Body jan_row)"
    by (simp add: store_def findOne_def example_defs date_defs Let_def)
  have u: "fst (update (\<lambda>p d. p * d) jan01_0000 gym_enrolled jan31_0900 1 1) =
     Json 200 (Body jan_row)"
    by (simp add: update_def findOne_def example_defs date_defs Let_def)
  have feb: "plus_calendar_months (startOfHour jan31_0900) (p_duration gold) = feb29_0900"
    by (simp add: plus_calendar_months_def roll_months_def example_defs date_defs)
  from end_date_adds_calendar_months [OF v p, of "\<lambda>p d. p * d" "\<lambda>m. True" jan01_0000 1
      jan_row jan_row] s g
  have a: "enrollments (snd (store (\<lambda>p d. p * d) (\<lambda>m. True) jan01_0000 gym
         \<lparr>b_start_date = Some (ISO jan31_0900), b_plan_id = Some 1, b_student_id = Some 1\<rparr>)) =
     [jan_row]"
    "end_date jan_row = plus_calendar_months (startOfHour jan31_0900) (p_duration gold)"
    by simp_all
  from end_date_adds_calendar_months [OF v p', of "\<lambda>p d. p * d" "\<lambda>m. True" jan01_0000 1
      jan_row jan_row] u
  have b: "jan_row \<in> set (enrollments (snd (update (\<lambda>p d. p * d) jan01_0000 gym_enrolled jan31_0900 1 1)))"
    by blast
  from v p p' s u a b feb show ?thesis by blast
qed

section \<open>Students without an enrollment, and \<open>delete\<close>\<close>

lemma filter_one_per_student:
  assumes "distinct (map student_id rows)" "e \<in> set rows"
  shows "filter (\<lambda>r. student_id r \<noteq> student_id e) rows = remove1 e rows"
  using assms
proof (induction rows)
  case Nil
  then show ?case by simp
next
  case (Cons r rows)
  show ?case
  proof (cases "r = e")
    case True
    from Cons.prems(1) have "student_id r \<notin> student_id ` set rows" by simp
    then have "\<forall>x\<in>set rows. student_id x \<noteq> student_id r" by (metis imageI)
    with True have "\<forall>x\<in>set rows. student_id x \<noteq> student_id e" by simp
    then have "filter (\<lambda>r. student_id r \<noteq> student_id e) rows = rows" by (simp add: filter_id_conv)
    with True show ?thesis by simp
  next
    case False
    with Cons.prems have "e \<in> set rows" "student_id r \<noteq> student_id e" by auto
    with Cons False show ?thesis by simp
  qed
qed

text \<open>
  Claim C5: when the student has no enrollment, \<open>update\<close> and \<open>delete\<close> both answer
  \<open>NotEnrolled\<close> and leave the database as it was. When the student has one, \<open>delete\<close>
  answers with a row of that student and removes the student's rows: the rows of the
  other students stay, and under the one-per-student invariant exactly the returned row
  is gone.
\<close>

theorem not_enrolled_or_removed:
  "((\<forall>r\<in>set (enrollments db). student_id r \<noteq> sid) \<longrightarrow>
      update multiply now db d pid sid = (NotEnrolled, db) \<and> delete db sid = (NotEnrolled, db)) \<and>
   (r \<in> set (enrollments db) \<and> student_id r = sid \<longrightarrow>
      (\<exists>e. fst (delete db sid) = Json 200 (Body e) \<and> e \<in> set (enrollments db) \<and>
           student_id e = sid \<and>
           (one_per_student db \<longrightarrow> enrollments (snd (delete db sid)) = remove1 e (enrollments db))) \<and>
      set (enrollments (snd (delete db sid))) = set (enrollments db) - {x. student_id x = sid} \<and>
      snd (delete db sid) = db\<lparr>enrollments := enrollments (snd (delete db sid))\<rparr>)"
proof (intro conjI impI)
  assume "\<forall>r\<in>set (enrollments db). student_id r \<noteq> sid"
  then have none: "findOne sid (enrollments db) = None" by (simp add: findOne_None_iff)
  then show "update multiply now db d pid sid = (NotEnrolled, db)" by (simp add: update_def)
  from none show "delete db sid = (NotEnrolled, db)" by (simp add: delete_def)
next
  assume "r \<in> set (enrollments db) \<and> student_id r = sid"
  then obtain e where e: "findOne sid (enrollments db) = Some e"
    using findOne_None_iff [of sid "enrollments db"] by (cases "findOne sid (enrollments db)") auto
  then have mem: "e \<in> set (enrollments db)" "student_id e = sid"
    using findOne_SomeD by blast+
  have del: "delete db sid =
      (Json 200 (Body e), db\<lparr>enrollments := filter (\<lambda>r. student_id r \<noteq> sid) (enrollments db)\<rparr>)"
    using e by (simp add: delete_def)
  have "one_per_student db \<longrightarrow> enrollments (snd (delete db sid)) = remove1 e (enrollments db)"
    using filter_one_per_student [OF _ mem(1)] mem(2) by (auto simp: del one_per_student_def)
  with mem del
  show "\<exists>e. fst (delete db sid) = Json 200 (Body e) \<and> e \<in> set (enrollments db) \<and>
           student_id e = sid \<and>
           (one_per_student db \<longrightarrow> enrollments (snd (delete db sid)) = remove1 e (enrollments db))"
    by auto
  show "set (enrollments (snd (delete db sid))) = set (enrollments db) - {x. student_id x = sid}"
    by (auto simp: del)
  show "snd (delete db sid) = db\<lparr>enrollments := enrollments (snd (delete db sid))\<rparr>"
    by (simp add: del)
qed

theorem not_enrolled_or_removed_witness:
  "enrollments gym = [] \<and>
   update (\<lambda>p d. p * d) mar01_0800 gym mar15_104733 1 1 = (NotEnrolled, gym) \<and>
   delete gym 1 = (NotEnrolled, gym) \<and>
   enrollments gym_enrolled = [ana_row] \<and> student_id ana_row = 1 \<and>
   delete gym_enrolled 1 = (Json 200 (Body ana_row), gym\<lparr>next_id := 2\<rparr>)"
proof -
  have e: "enrollments gym = []" by (simp add: gym_def)
  then have h: "\<forall>r\<in>set (enrollments gym). student_id r \<noteq> 1" by simp
  from h not_enrolled_or_removed [of gym 1 "\<lambda>p d. p * d" mar01_0800 mar15_104733 1 ana_row]
  have a: "update (\<lambda>p d. p * d) mar01_0800 gym mar15_104733 1 1 = (NotEnrolled, gym) \<and>
           delete gym 1 = (NotEnrolled, gym)"
    by blast
  have r: "enrollments gym_enrolled = [ana_row] \<and> student_id ana_row = 1"
    by (simp add: gym_enrolled_def ana_row_def)
  then have r': "ana_row \<in> set (enrollments gym_enrolled) \<and> student_id ana_row = 1" by simp
  have o: "one_per_student gym_enrolled" by (simp add: one_per_student_def gym_enrolled_def)
  from r' not_enrolled_or_removed [of gym_enrolled 1 "\<lambda>p d. p * d" mar01_0800 mar15_104733 1 ana_row]
  obtain x where x: "fst (delete gym_enrolled 1) = Json 200 (Body x)" "x \<in> set (enrollments gym_enrolled)"
    "one_per_student gym_enrolled \<longrightarrow> enrollments (snd (delete gym_enrolled 1)) = remove1 x (enrollments gym_enrolled)"
    and s: "snd (delete gym_enrolled 1) = gym_enrolled\<lparr>enrollments := enrollments (snd (delete gym_enrolled 1))\<rparr>"
    by blast
  from x(2) r have "x = ana_row" by simp
  with x o r s have "fst (delete gym_enrolled 1) = Json 200 (Body ana_row)"
    "snd (delete gym_enrolled 1) = gym_enrolled\<lparr>enrollments := []\<rparr>" by simp_all
  then have "delete gym_enrolled 1 = (Json 200 (Body ana_row), gym\<lparr>next_id := 2\<rparr>)"
    by (simp add: prod_eq_iff gym_enrolled_def gym_def)
  with e a r show ?thesis by blast
qed

section \<open>The date check\<close>




section \<open>A mail that fails\<close>

text \<open>
  Claim C3: once \<open>store\<close> has written the row, a failure of the mail neither rolls the row
  back nor turns the call into an error; the call still returns the row. In the code the
  mail is awaited before \<open>res.json\<close> and nothing catches its failure: the row stays, but
  the handler ends with the rejection and returns no enrollment.
\<close>

theorem mail_failure_counterexample:
  "fst (store (\<lambda>p d. p * d) (\<lambda>m. False) mar01_0800 gym ana_body) = Rejected \<and>
   fst (store (\<lambda>p d. p * d) (\<lambda>m. False) mar01_0800 gym ana_body) \<noteq> Json 200 (Body ana_row) \<and>
   enrollments (snd (store (\<lambda>p d. p * d) (\<lambda>m. False) mar01_0800 gym ana_body)) = [ana_row]"
  by (simp add: store_def findOne_def example_defs date_defs Let_def)

text \<open>
  Claim C3, amended: when a request passes every check of \<open>store\<close> and the mail for its
  row fails, the handler ends with the rejection of \<open>Mail.sendMail\<close> instead of a response,
  and the state it leaves is the state before plus the new row at the end of the table
  and the sequence advanced: the row is not rolled back and no message is recorded as
  sent.
\<close>

theorem mail_failure_keeps_row:
  assumes "findOne sid (enrollments db) = None"
    and "students db sid = Some st"
    and "plans db pid = Some pl"
    and "\<not> isBefore (startOfHour d) now"
    and "\<not> sendMail (enrollment_mail st pl (new_row multiply db d pid sid pl))"
  shows "store multiply sendMail now db
           \<lparr>b_start_date = Some (ISO d), b_plan_id = Some pid, b_student_id = Some sid\<rparr> =
         (Rejected,
          db\<lparr>enrollments := enrollments db @ [new_row multiply db d pid sid pl],
             next_id := next_id db + 1\<rparr>)"
  using assms(5) by (simp add: store_persisting [OF assms(1-4)] Let_def)

theorem mail_failure_keeps_row_witness:
  "findOne 1 (enrollments gym) = None \<and> students gym 1 = Some ana \<and> plans gym 1 = Some gold \<and>
   \<not> isBefore (startOfHour mar15_104733) mar01_0800 \<and>
   new_row (\<lambda>p d. p * d) gym mar15_104733 1 1 gold = ana_row \<and>
   store (\<lambda>p d. p * d) (\<lambda>m. False) mar01_0800 gym ana_body = (Rejected, gym_enrolled)"
proof -
  have f: "findOne 1 (enrollments gym) = None" by (simp add: gym_def findOne_def)
  have s: "students gym 1 = Some ana" by (simp add: gym_def)
  have p: "plans gym 1 = Some gold" by (simp add: gym_def)
  have t: "\<not> isBefore (startOfHour mar15_104733) mar01_0800"
    by (simp add: example_defs date_defs)
  have m: "\<not> (\<lambda>m. False) (enrollment_mail ana gold (new_row (\<lambda>p d. p * d) gym mar15_104733 1 1 gold))"
    by simp
  have r: "new_row (\<lambda>p d. p * d) gym mar15_104733 1 1 gold = ana_row"
    by (simp add: new_row_def example_defs date_defs)
  have n: "next_id gym = 1" "enrollments gym = []" by (simp_all add: gym_def)
  note k = mail_failure_keeps_row
    [where multiply = "\<lambda>p d. p * d" and sendMail = "\<lambda>m. False", OF f s p t m]
  from k [unfolded r]
  have "store (\<lambda>p d. p * d) (\<lambda>m. False) mar01_0800 gym ana_body = (Rejected, gym_enrolled)"
    by (simp add: n ana_body_def gym_enrolled_def)
  with f s p t r show ?thesis by blast
qed

section \<open>\<open>update\<close> rewrites the row in place\<close>

lemma map_update_by_key:
  assumes "distinct (map f xs)" "i < length xs"
  shows "map (\<lambda>r. if f r = f (xs ! i) then g r else r) xs = xs[i := g (xs ! i)]"
proof (rule nth_equalityI)
  show "length (map (\<lambda>r. if f r = f (xs ! i) then g r else r) xs) = length (xs[i := g (xs ! i)])"
    by simp
next
  fix j
  assume "j < length (map (\<lambda>r. if f r = f (xs ! i) then g r else r) xs)"
  then have j: "j < length xs" by simp
  have "f (xs ! j) = f (xs ! i) \<longleftrightarrow> j = i"
    using assms j nth_eq_iff_index_eq [of "map f xs" j i] by simp
  with j assms(2)
  show "map (\<lambda>r. if f r = f (xs ! i) then g r else r) xs ! j = xs[i := g (xs ! i)] ! j"
    by (simp add: nth_list_update)
qed

text \<open>
  Claim C9: a successful \<open>update\<close> replaces the existing row of the student in place. The
  row keeps its id; \<open>plan_id\<close>, \<open>start_date\<close>, \<open>end_date\<close> and \<open>price\<close> are set from the
  request and the plan; the table keeps its length and its ids, so no row is created; and
  the outbox is unchanged, so no mail is sent.
\<close>

theorem update_in_place:
  assumes ok: "fst (update multiply now db d pid sid) = Json 200 (Body e')"
  shows "\<exists>old pl.
           findOne sid (enrollments db) = Some old \<and> plans db pid = Some pl \<and>
           e' = old\<lparr>student_id := sid, plan_id := pid, start_date := d,
                     end_date := addMonths (startOfHour d) (p_duration pl),
                     price := multiply (p_price pl) (p_duration pl)\<rparr> \<and>
           e_id e' = e_id old \<and>
           map e_id (enrollments (snd (update multiply now db d pid sid))) =
             map e_id (enrollments db) \<and>
           (primary_key db \<longrightarrow>
              (\<exists>i<length (enrollments db). enrollments db ! i = old \<and>
                 enrollments (snd (update multiply now db d pid sid)) = (enrollments db)[i := e'])) \<and>
           next_id (snd (update multiply now db d pid sid)) = next_id db \<and>
           outbox (snd (update multiply now db d pid sid)) = outbox db \<and>
           students (snd (update multiply now db d pid sid)) = students db \<and>
           plans (snd (update multiply now db d pid sid)) = plans db"
proof (cases rule: update_cases [of sid db multiply now d pid])
  case (rewritten old st pl)
  note upd = update_rewriting [OF rewritten, of multiply]
  from ok upd have e': "e' = set_fields multiply d pid sid pl old" by simp
  have ids: "map e_id (enrollments (snd (update multiply now db d pid sid))) = map e_id (enrollments db)"
    by (simp add: upd set_fields_def o_def cong: map_cong)
  have place: "\<exists>i<length (enrollments db). enrollments db ! i = old \<and>
      enrollments (snd (update multiply now db d pid sid)) = (enrollments db)[i := e']"
    if pk: "primary_key db"
  proof -
    from rewritten(1) have "old \<in> set (enrollments db)" using findOne_SomeD by blast
    then obtain i where i: "i < length (enrollments db)" "enrollments db ! i = old"
      by (auto simp: in_set_conv_nth)
    from pk have "distinct (map e_id (enrollments db))" by (simp add: primary_key_def)
    from map_update_by_key [OF this i(1), of "set_fields multiply d pid sid pl"] i e'
    show ?thesis by (auto simp: upd)
  qed
  from rewritten(1,3) e' ids place show ?thesis
    by (auto simp: upd set_fields_def)
qed (use ok in simp_all)

theorem update_in_place_witness:
  "fst (update (\<lambda>p d. p * d) jan01_0000 gym_enrolled jan31_0900 1 1) = Json 200 (Body jan_row) \<and>
   findOne 1 (enrollments gym_enrolled) = Some ana_row \<and> e_id jan_row = e_id ana_row \<and>
   primary_key gym_enrolled \<and>
   enrollments gym_enrolled = [ana_row] \<and>
   enrollments (snd (update (\<lambda>p d. p * d) jan01_0000 gym_enrolled jan31_0900 1 1)) = [jan_row] \<and>
   next_id (snd (update (\<lambda>p d. p * d) jan01_0000 gym_enrolled jan31_0900 1 1)) = 2 \<and>
   outbox (snd (update (\<lambda>p d. p * d) jan01_0000 gym_enrolled jan31_0900 1 1)) = []"
proof -
  have u: "fst (update (\<lambda>p d. p * d) jan01_0000 gym_enrolled jan31_0900 1 1) = Json 200 (Body jan_row)"
    by (simp add: update_def findOne_def example_defs date_defs Let_def)
  have f: "findOne 1 (enrollments gym_enrolled) = Some ana_row"
    by (simp add: findOne_def gym_enrolled_def ana_row_def)
  have pk: "primary_key gym_enrolled"
    by (simp add: primary_key_def gym_enrolled_def ana_row_def)
  have rows: "enrollments gym_enrolled = [ana_row]" "outbox gym_enrolled = []"
    by (simp_all add: gym_enrolled_def gym_def)
  from update_in_place [OF u] f pk rows
  have "e_id jan_row = e_id ana_row"
    "enrollments (snd (update (\<lambda>p d. p * d) jan01_0000 gym_enrolled jan31_0900 1 1)) = [jan_row]"
    "outbox (snd (update (\<lambda>p d. p * d) jan01_0000 gym_enrolled jan31_0900 1 1)) = []"
    "next_id (snd (update (\<lambda>p d. p * d) jan01_0000 gym_enrolled jan31_0900 1 1)) = next_id gym_enrolled"
    "students (snd (update (\<lambda>p d. p * d) jan01_0000 gym_enrolled jan31_0900 1 1)) = students gym_enrolled"
    "plans (snd (update (\<lambda>p d. p * d) jan01_0000 gym_enrolled jan31_0900 1 1)) = plans gym_enrolled"
    by auto
  with u f pk rows show ?thesis by (simp add: gym_enrolled_def)
qed

section \<open>At most one enrollment per student\<close>

text \<open>
  Each handler keeps the primary key of the table intact and keeps the student ids of the
  rows distinct: \<open>store\<close> appends a row only after \<open>findOne\<close> found none for the student,
  \<open>update\<close> rewrites the row it found with the student id it searched for, and \<open>delete\<close>
  only removes rows.
\<close>

lemma store_preserves:
  assumes "primary_key db" "one_per_student db"
  shows "primary_key (snd (store multiply sendMail now db b)) \<and>
         one_per_student (snd (store multiply sendMail now db b))"
proof (cases rule: store_cases [of b multiply sendMail now db])
  case (persisted d pid sid st pl)
  let ?e = "new_row multiply db d pid sid pl"
  have rows: "enrollments (snd (store multiply sendMail now db b)) = enrollments db @ [?e]"
    and seq: "next_id (snd (store multiply sendMail now db b)) = next_id db + 1"
    unfolding persisted(1) by (simp_all add: store_persisting [OF persisted(2-5)] Let_def)
  from assms(1) have ids: "distinct (map e_id (enrollments db))"
    and below: "\<forall>r\<in>set (enrollments db). e_id r < next_id db"
    by (simp_all add: primary_key_def list_all_iff)
  from below have fresh: "next_id db \<notin> e_id ` set (enrollments db)" by auto
  from persisted(2) have new: "sid \<notin> student_id ` set (enrollments db)"
    by (auto simp: findOne_None_iff)
  have "primary_key (snd (store multiply sendMail now db b))"
    using ids below fresh
    by (auto simp: primary_key_def rows seq list_all_iff new_row_def less_Suc_eq)
  moreover have "one_per_student (snd (store multiply sendMail now db b))"
    using assms(2) new by (simp add: one_per_student_def rows new_row_def)
  ultimately show ?thesis ..
qed (use assms in simp_all)

lemma update_preserves:
  assumes "primary_key db" "one_per_student db"
  shows "primary_key (snd (update multiply now db d pid sid)) \<and>
         one_per_student (snd (update multiply now db d pid sid))"
proof (cases rule: update_cases [of sid db multiply now d pid])
  case (rewritten old st pl)
  note upd = update_rewriting [OF rewritten, of multiply]
  let ?f = "\<lambda>r. if e_id r = e_id old then set_fields multiply d pid sid pl r else r"
  from rewritten(1) have old: "old \<in> set (enrollments db)" "student_id old = sid"
    using findOne_SomeD by blast+
  from assms(1) have ids: "distinct (map e_id (enrollments db))"
    by (simp add: primary_key_def)
  have same_id: "map e_id (map ?f (enrollments db)) = map e_id (enrollments db)"
    by (simp add: set_fields_def o_def cong: map_cong)
  have "student_id (?f r) = student_id r" if "r \<in> set (enrollments db)" for r
  proof (cases "e_id r = e_id old")
    case True
    with ids that old(1) have "r = old" by (meson distinct_map inj_onD)
    with old(2) show ?thesis by (simp add: set_fields_def)
  next
    case False
    then show ?thesis by simp
  qed
  then have same_student: "map student_id (map ?f (enrollments db)) = map student_id (enrollments db)"
    by (simp add: o_def cong: map_cong)
  from assms(1) have below: "\<forall>r\<in>set (enrollments db). e_id r < next_id db"
    by (simp add: primary_key_def list_all_iff)
  have ids': "distinct (map e_id (map ?f (enrollments db)))"
    using ids by (simp only: same_id)
  have id_f: "e_id (?f r) = e_id r" for r
    by (simp add: set_fields_def)
  have below': "\<forall>r\<in>set (map ?f (enrollments db)). e_id r < next_id db"
  proof
    fix r
    assume "r \<in> set (map ?f (enrollments db))"
    then obtain x where x: "x \<in> set (enrollments db)" "r = ?f x"
      unfolding set_map by blast
    from x(2) have "e_id r = e_id x" by (simp only: id_f)
    with below x(1) show "e_id r < next_id db" by simp
  qed
  have "primary_key (snd (update multiply now db d pid sid))"
    using ids' below' by (simp add: primary_key_def upd list_all_iff del: map_map set_map)
  moreover have "one_per_student (snd (update multiply now db d pid sid))"
  proof -
    have "distinct (map student_id (map ?f (enrollments db)))"
      using assms(2) by (simp only: same_student one_per_student_def)
    then show ?thesis by (simp add: one_per_student_def upd del: map_map)
  qed
  ultimately show ?thesis ..
qed (use assms in simp_all)

lemma delete_preserves:
  assumes "primary_key db" "one_per_student db"
  shows "primary_key (snd (delete db sid)) \<and> one_per_student (snd (delete db sid))"
proof (cases "findOne sid (enrollments db)")
  case None
  with assms show ?thesis by (simp add: delete_def)
next
  case (Some e)
  with assms show ?thesis
    by (simp add: delete_def primary_key_def one_per_student_def distinct_map_filter list_all_iff)
qed

lemma handle_preserves:
  assumes "primary_key db" "one_per_student db"
  shows "primary_key (handle multiply sendMail db req) \<and> one_per_student (handle multiply sendMail db req)"
  using assms by (cases req) (simp_all add: store_preserves update_preserves delete_preserves)

lemma run_preserves:
  assumes "primary_key db" "one_per_student db"
  shows "primary_key (run multiply sendMail db reqs) \<and> one_per_student (run multiply sendMail db reqs)"
  using assms unfolding run_def
proof (induction reqs arbitrary: db)
  case Nil
  then show ?case by simp
next
  case (Cons req reqs)
  from handle_preserves [OF Cons.prems, of multiply sendMail req]
  show ?case using Cons.IH by simp
qed

lemma at_most_one_row:
  "distinct (map f xs) \<Longrightarrow> length (filter (\<lambda>r. f r = k) xs) \<le> 1"
proof (induction xs)
  case Nil
  then show ?case by simp
next
  case (Cons x xs)
  show ?case
  proof (cases "f x = k")
    case True
    with Cons.prems have "\<forall>r\<in>set xs. f r \<noteq> k" by (metis distinct.simps(2) imageI list.simps(9) set_map)
    then have "filter (\<lambda>r. f r = k) xs = []" by (simp add: filter_empty_conv)
    with True show ?thesis by simp
  next
    case False
    with Cons show ?thesis by simp
  qed
qed

text \<open>
  Claim C6: starting from a state in which every student has at most one enrollment, every
  state reached by handling \<open>store\<close>, \<open>update\<close> and \<open>delete\<close> requests one after the other
  has at most one enrollment row per student id. The enrollment table is a table with a
  primary key, as the database keeps it.
\<close>

theorem one_enrollment_per_student:
  assumes "primary_key db" and "one_per_student db"
  shows "one_per_student (run multiply sendMail db reqs) \<and>
         length (filter (\<lambda>r. student_id r = sid) (enrollments (run multiply sendMail db reqs))) \<le> 1"
proof -
  from run_preserves [OF assms] have inv: "one_per_student (run multiply sendMail db reqs)" ..
  then have "distinct (map student_id (enrollments (run multiply sendMail db reqs)))"
    by (simp add: one_per_student_def)
  from inv at_most_one_row [OF this] show ?thesis by simp
qed

theorem one_enrollment_per_student_witness:
  "primary_key gym \<and> one_per_student gym \<and>
   one_per_student (run (\<lambda>p d. p * d) (\<lambda>m. True) gym busy_day) \<and>
   map student_id (enrollments (run (\<lambda>p d. p * d) (\<lambda>m. True) gym busy_day)) = [1] \<and>
   length (filter (\<lambda>r. student_id r = 1)
     (enrollments (run (\<lambda>p d. p * d) (\<lambda>m. True) gym busy_day))) \<le> 1"
proof -
  have pk: "primary_key gym" by (simp add: primary_key_def gym_def)
  have one: "one_per_student gym" by (simp add: one_per_student_def gym_def)
  have rows: "map student_id (enrollments (run (\<lambda>p d. p * d) (\<lambda>m. True) gym busy_day)) = [1]"
    by (simp add: run_def busy_day_def store_def update_def delete_def findOne_def example_defs
        date_defs Let_def)
  from one_enrollment_per_student [OF pk one, of "\<lambda>p d. p * d" "\<lambda>m. True" busy_day 1] pk one rows
  show ?thesis by simp
qed

section \<open>The price\<close>

text \<open>
  The rounding of \<open>js_times\<close> meets the description of the standard: for a price with a
  full significand and a duration other than zero, a finite result is the binary64 value
  nearest to the exact product, the even one of two nearest.
\<close>

lemma excess_bits_bounds:
  "2 ^ 52 \<le> n \<Longrightarrow> 2 ^ (52 + excess_bits n) \<le> n \<and> n < 2 ^ (53 + excess_bits n)"
proof (induction n rule: excess_bits.induct)
  case (1 n)
  show ?case
  proof (cases "n < 2 ^ 53")
    case True
    then have "excess_bits n = 0" by (simp add: excess_bits.simps)
    with True "1.prems" show ?thesis by simp
  next
    case False
    define k where "k = excess_bits (n div 2)"
    from False have k: "excess_bits n = Suc k" by (simp add: excess_bits.simps k_def)
    from False have "(2::nat) ^ 52 * 2 \<le> n" by simp
    then have "(2::nat) ^ 52 \<le> n div 2" by (simp add: less_eq_div_iff_mult_less_eq)
    with "1.IH" False have ih: "2 ^ (52 + k) \<le> n div 2" "n div 2 < 2 ^ (53 + k)"
      by (simp_all add: k_def)
    have "(2::nat) ^ (52 + Suc k) = 2 * 2 ^ (52 + k)" by (simp add: power_add)
    also have "\<dots> \<le> 2 * (n div 2)" using ih(1) by simp
    also have "\<dots> \<le> n" by simp
    finally have lo: "2 ^ (52 + Suc k) \<le> n" .
    have "n < 2 * (n div 2) + 2" by presburger
    also have "\<dots> = 2 * (n div 2 + 1)" by simp
    also have "\<dots> \<le> 2 * 2 ^ (53 + k)" using ih(2) by simp
    also have "\<dots> = 2 ^ (53 + Suc k)" by (simp add: power_add)
    finally have hi: "n < 2 ^ (53 + Suc k)" .
    from lo hi show ?thesis by (simp only: k)
  qed
qed

lemma round_half_even_error:
  "2 * \<bar>int n - int (round_half_even n k) * 2 ^ k\<bar> < 2 ^ k \<or>
   2 * \<bar>int n - int (round_half_even n k) * 2 ^ k\<bar> = 2 ^ k \<and> even (round_half_even n k)"
proof -
  define q r where "q = n div 2 ^ k" and "r = n mod 2 ^ k"
  define P A where "P = (2::int) ^ k" and "A = int q * P"
  have "n = q * 2 ^ k + r"
    unfolding q_def r_def by (rule div_mult_mod_eq [symmetric])
  then have "int n = int (q * 2 ^ k + r)" by (rule arg_cong)
  then have n: "int n = A + int r" by (simp add: A_def P_def)
  have "r < 2 ^ k" unfolding r_def by simp
  then have "int r < int (2 ^ k)" by (rule iffD2 [OF of_nat_less_iff])
  then have r: "int r < P" by (simp add: P_def)
  have P_nat: "int (2 ^ k) = P" by (simp add: P_def)
  have up_val: "int (q + 1) * P = A + P" by (simp add: A_def algebra_simps)
  from n r have above: "\<bar>int n - (A + P)\<bar> = P - int r" by simp
  from n have below: "\<bar>int n - A\<bar> = int r" by simp
  consider (up) "2 ^ k < 2 * r" | (tie_up) "2 * r = 2 ^ k" "odd q" | (tie_down) "2 * r = 2 ^ k" "even q"
    | (down) "2 * r < 2 ^ k"
    by (cases "2 ^ k < 2 * r"; cases "2 * r = 2 ^ k") auto
  then have "2 * \<bar>int n - int (round_half_even n k) * P\<bar> < P \<or>
   2 * \<bar>int n - int (round_half_even n k) * P\<bar> = P \<and> even (round_half_even n k)"
  proof cases
    case up
    then have v: "round_half_even n k = q + 1"
      by (simp add: round_half_even_def Let_def q_def r_def)
    from up have "int (2 ^ k) < int (2 * r)" by (rule iffD2 [OF of_nat_less_iff])
    then have "P < 2 * int r" by (simp add: P_def)
    then have "2 * \<bar>int n - (A + P)\<bar> < P" unfolding above by simp
    then show ?thesis unfolding v up_val by blast
  next
    case tie_up
    then have v: "round_half_even n k = q + 1"
      by (simp add: round_half_even_def Let_def q_def r_def)
    from tie_up(1) have "int (2 * r) = int (2 ^ k)" by (rule arg_cong)
    then have "2 * int r = P" by (simp add: P_def)
    then have "2 * \<bar>int n - (A + P)\<bar> = P" unfolding above by simp
    moreover from tie_up(2) have "even (q + 1)" by simp
    ultimately show ?thesis unfolding v up_val by blast
  next
    case tie_down
    then have v: "round_half_even n k = q"
      by (simp add: round_half_even_def Let_def q_def r_def)
    from tie_down(1) have "int (2 * r) = int (2 ^ k)" by (rule arg_cong)
    then have "2 * int r = P" by (simp add: P_def)
    then have "2 * \<bar>int n - A\<bar> = P" unfolding below by simp
    with tie_down(2) show ?thesis unfolding v A_def by blast
  next
    case down
    then have v: "round_half_even n k = q"
      by (simp add: round_half_even_def Let_def q_def r_def)
    from down have "int (2 * r) < int (2 ^ k)" by (rule iffD2 [OF of_nat_less_iff])
    then have "2 * int r < P" by (simp add: P_def)
    then have "2 * \<bar>int n - A\<bar> < P" unfolding below by simp
    then show ?thesis unfolding v A_def by blast
  qed
  then show ?thesis by (simp only: P_def)
qed

lemma round_half_even_range:
  assumes "2 ^ (52 + k) \<le> n" "n < 2 ^ (53 + k)"
  shows "2 ^ 52 \<le> round_half_even n k \<and> round_half_even n k \<le> 2 ^ 53"
proof -
  define q where "q = n div 2 ^ k"
  from assms(1) have "2 ^ 52 * 2 ^ k \<le> n" by (simp add: power_add)
  then have lo: "2 ^ 52 \<le> q"
    unfolding q_def by (simp add: less_eq_div_iff_mult_less_eq)
  from assms(2) have "n < 2 ^ 53 * 2 ^ k" by (simp add: power_add)
  then have hi: "q < 2 ^ 53"
    unfolding q_def by (simp add: div_less_iff_less_mult)
  have "round_half_even n k = q \<or> round_half_even n k = q + 1"
    by (simp add: round_half_even_def Let_def q_def)
  with lo hi show ?thesis by auto
qed

lemma exp2_pos: "0 < exp2 e"
  by (simp add: exp2_def)

lemma exp2_Suc: "exp2 (e + 1) = 2 * exp2 e"
proof (cases "0 \<le> e")
  case True
  then show ?thesis by (simp add: exp2_def nat_add_distrib)
next
  case False
  then obtain j where j: "nat (- e) = Suc j" "nat (- (e + 1)) = j"
    by (cases "nat (- e)") auto
  from False have "exp2 e = 1 / 2 ^ Suc j" by (simp add: exp2_def j)
  moreover have "exp2 (e + 1) = 1 / 2 ^ j"
  proof (cases "0 \<le> e + 1")
    case True
    with False have "e + 1 = 0" by simp
    with j show ?thesis by (simp add: exp2_def)
  next
    case False
    then show ?thesis using j(2) by (simp add: exp2_def)
  qed
  ultimately show ?thesis by simp
qed

lemma exp2_add_nat: "exp2 (e + int k) = exp2 e * 2 ^ k"
proof (induction k)
  case 0
  show ?case by simp
next
  case (Suc k)
  have eq: "e + int (Suc k) = e + int k + 1" by simp
  have "exp2 (e + int (Suc k)) = exp2 (e + int k + 1)" by (simp only: eq)
  also have "\<dots> = 2 * exp2 (e + int k)" by (rule exp2_Suc)
  also have "\<dots> = exp2 e * 2 ^ Suc k" by (simp add: Suc)
  finally show ?case .
qed

lemma round_binary64_nearest:
  assumes n: "2 ^ 52 \<le> n" and e: "- 1074 \<le> e"
    and res: "round_binary64 negative n e = Finite m' e'"
  shows "nearest_binary64 ((if negative then - 1 else 1) * of_nat n * exp2 e) (Finite m' e')"
proof -
  define k where "k = excess_bits n"
  define q where "q = round_half_even n k"
  define m0 where "m0 = (if q = 2 ^ 53 then 2 ^ 52 else q)"
  define e0 where "e0 = (if q = 2 ^ 53 then e + int k + 1 else e + int k)"
  define X where "X = exp2 e"
  define s :: rat where "s = (if negative then - 1 else 1)"
  define a where "a = \<bar>int n - int q * 2 ^ k\<bar>"
  have X: "0 < X" by (simp add: X_def exp2_pos)
  have s: "\<bar>s\<bar> = 1" by (simp add: s_def)
  from excess_bits_bounds [OF n] have B: "2 ^ (52 + k) \<le> n" "n < 2 ^ (53 + k)"
    by (simp_all add: k_def)
  from round_half_even_range [OF B] have Q: "2 ^ 52 \<le> q" "q \<le> 2 ^ 53"
    by (simp_all add: q_def)
  from round_half_even_error [of n k]
  have E: "2 * a < 2 ^ k \<or> 2 * a = 2 ^ k \<and> even q"
    by (simp add: q_def a_def)
  from n have n0: "n \<noteq> 0" by auto
  have M: "2 ^ 52 \<le> m0" "m0 < 2 ^ 53" using Q by (auto simp: m0_def)
  have "round_binary64 negative n e =
      (if 971 < e0 \<and> 2 ^ 53 \<le> m0 * 2 ^ nat (e0 - 971)
       then (if negative then MinusInfinity else PlusInfinity)
       else Finite (if negative then - int m0 else int m0) e0)"
    using n0 unfolding round_binary64_def Let_def k_def [symmetric] q_def [symmetric]
      m0_def [symmetric] e0_def [symmetric] by simp
  with res have no_overflow: "\<not> (971 < e0 \<and> 2 ^ 53 \<le> m0 * 2 ^ nat (e0 - 971))"
    and m': "m' = (if negative then - int m0 else int m0)" and e': "e' = e0"
    by (auto split: if_splits)
  have hi: "e0 \<le> 971"
  proof (rule ccontr)
    assume "\<not> e0 \<le> 971"
    then have g: "971 < e0" by simp
    then obtain j where "nat (e0 - 971) = Suc j" by (cases "nat (e0 - 971)") auto
    then have "(2::nat) \<le> 2 ^ nat (e0 - 971)" by simp
    with M(1) have "2 ^ 52 * 2 \<le> m0 * 2 ^ nat (e0 - 971)" by (rule mult_le_mono)
    with g no_overflow show False by simp
  qed
  have lo: "- 1074 \<le> e0" using e by (simp add: e0_def)
  have abs_m: "\<bar>m'\<bar> = int m0" by (simp add: m')
  have of_m: "(of_int m' :: rat) = s * of_nat m0" by (simp add: m' s_def)
  have scale: "of_nat m0 * exp2 e0 = (of_nat q :: rat) * 2 ^ k * X"
  proof (cases "q = 2 ^ 53")
    case True
    then have "exp2 e0 = 2 * (X * 2 ^ k)"
      by (simp add: e0_def X_def exp2_Suc exp2_add_nat)
    with True show ?thesis by (simp add: m0_def)
  next
    case False
    then show ?thesis by (simp add: m0_def e0_def X_def exp2_add_nat)
  qed
  define r where "r = s * of_nat n * X"
  define v where "v = of_int m' * exp2 e0"
  have v: "v = s * (of_nat q * 2 ^ k * X)"
    unfolding v_def of_m using scale by (simp add: mult.assoc)
  have "r - v = s * (of_int (int n - int q * 2 ^ k) * X)"
    by (simp add: r_def v algebra_simps)
  then have "\<bar>r - v\<bar> = \<bar>s\<bar> * (\<bar>of_int (int n - int q * 2 ^ k)\<bar> * \<bar>X\<bar>)"
    by (simp only: abs_mult)
  then have err: "\<bar>r - v\<bar> = of_int a * X"
    using X s by (simp add: a_def)
  have absr: "\<bar>r\<bar> = of_nat n * X" using X s by (simp add: r_def abs_mult)
  have absv: "\<bar>v\<bar> = of_nat (q * 2 ^ k) * X" using X s by (simp add: v abs_mult)
  have less: "\<bar>r\<bar> < \<bar>v\<bar> \<longleftrightarrow> n < q * 2 ^ k"
    unfolding absr absv using X by (simp only: mult_less_cancel_right_pos of_nat_less_iff)
  have half: "(if \<bar>m'\<bar> = 2 ^ 52 \<and> \<bar>r\<bar> < \<bar>v\<bar> \<and> - 1074 < e0 then exp2 e0 / 4 else exp2 e0 / 2) =
      of_int (2 ^ k) * X / 2"
  proof (cases "q = 2 ^ 53")
    case True
    then have "m0 = 2 ^ 52" "e0 = e + int k + 1" by (simp_all add: m0_def e0_def)
    moreover from B(2) True have "n < q * 2 ^ k" by (simp add: power_add)
    moreover have "exp2 (e + int k + 1) = 2 * (X * 2 ^ k)"
      by (simp add: X_def exp2_Suc exp2_add_nat)
    ultimately show ?thesis using e by (simp add: abs_m less)
  next
    case False
    then have me: "m0 = q" "e0 = e + int k" by (simp_all add: m0_def e0_def)
    have "\<not> (int m0 = 2 ^ 52 \<and> n < q * 2 ^ k)"
    proof
      assume asm: "int m0 = 2 ^ 52 \<and> n < q * 2 ^ k"
      then have "int q = int (2 ^ 52)" using me(1) by simp
      then have "q = 2 ^ 52" by (rule iffD1 [OF of_nat_eq_iff])
      moreover from asm have "n < q * 2 ^ k" by (rule conjunct2)
      ultimately have "n < 2 ^ (52 + k)" by (simp add: power_add)
      with B(1) show False by simp
    qed
    then show ?thesis by (auto simp: abs_m less me(2) X_def exp2_add_nat)
  qed
  have even_m: "even q \<Longrightarrow> even m'"
    by (auto simp: m' m0_def)
  define Y Z where "Y = of_int a * X" and "Z = of_int (2 ^ k) * X"
  have Y2: "2 * Y = of_int (2 * a) * X" by (simp add: Y_def)
  have "2 * Y < Z \<longleftrightarrow> 2 * a < 2 ^ k"
    unfolding Y2 Z_def using X by (simp only: mult_less_cancel_right_pos of_int_less_iff)
  moreover have "Y < Z / 2 \<longleftrightarrow> 2 * Y < Z" by linarith
  ultimately have lt: "of_int a * X < of_int (2 ^ k) * X / 2 \<longleftrightarrow> 2 * a < 2 ^ k"
    unfolding Y_def Z_def by blast
  have "of_int (2 * a) * X = of_int (2 ^ k) * X \<longleftrightarrow> 2 * a = 2 ^ k"
    using X by (simp only: mult_cancel_right of_int_eq_iff) simp
  then have "2 * Y = Z \<longleftrightarrow> 2 * a = 2 ^ k"
    unfolding Y2 Z_def .
  moreover have "Y = Z / 2 \<longleftrightarrow> 2 * Y = Z" by linarith
  ultimately have eq: "of_int a * X = of_int (2 ^ k) * X / 2 \<longleftrightarrow> 2 * a = 2 ^ k"
    unfolding Y_def Z_def by blast
  from E even_m have close: "\<bar>r - v\<bar> < of_int (2 ^ k) * X / 2 \<or>
      \<bar>r - v\<bar> = of_int (2 ^ k) * X / 2 \<and> even m'"
    unfolding err lt eq by blast
  have "nearest_binary64 r (Finite m' e0)"
    unfolding nearest_binary64.simps Let_def v_def [symmetric] half
    using M abs_m lo hi close by simp
  then show ?thesis by (simp add: r_def s_def X_def e')
qed

lemma js_times_nearest:
  assumes m: "2 ^ 52 \<le> \<bar>m\<bar>" and e: "- 1074 \<le> e" and d: "d \<noteq> 0"
    and res: "js_times (Finite m e) d = Finite m' e'"
  shows "nearest_binary64 (value_of (Finite m e) * of_int d) (Finite m' e')"
proof -
  define n where "n = nat \<bar>m * d\<bar>"
  from d have "1 \<le> \<bar>d\<bar>" by simp
  with m have "2 ^ 52 * 1 \<le> \<bar>m\<bar> * \<bar>d\<bar>" by (rule mult_mono) simp_all
  then have "2 ^ 52 \<le> \<bar>m * d\<bar>" by (simp add: abs_mult)
  then have "int (2 ^ 52) \<le> int n" by (simp add: n_def)
  then have n: "2 ^ 52 \<le> n" by (rule iffD1 [OF of_nat_le_iff])
  from res have "round_binary64 (m * d < 0) n e = Finite m' e'" by (simp add: n_def)
  from round_binary64_nearest [OF n e this]
  have near: "nearest_binary64 ((if m * d < 0 then - 1 else 1) * of_nat n * exp2 e) (Finite m' e')" .
  have "(of_nat n :: rat) = of_int \<bar>m * d\<bar>"
    unfolding n_def by (metis abs_ge_zero of_int_of_nat_eq int_nat_eq)
  then have "(if m * d < 0 then - 1 else 1) * (of_nat n :: rat) = of_int (m * d)"
    by (simp add: abs_if)
  then have "(if m * d < 0 then - 1 else 1) * of_nat n * exp2 e = value_of (Finite m e) * of_int d"
    by (simp add: mult.commute mult.left_commute)
  with near show ?thesis by simp
qed

lemma store_ok_row:
  assumes "fst (store multiply sendMail now db
             \<lparr>b_start_date = Some (ISO d), b_plan_id = Some pid, b_student_id = Some sid\<rparr>) =
           Json 200 (Body e)"
    and "plans db pid = Some pl"
  shows "e = new_row multiply db d pid sid pl \<and>
         enrollments (snd (store multiply sendMail now db
             \<lparr>b_start_date = Some (ISO d), b_plan_id = Some pid, b_student_id = Some sid\<rparr>)) =
         enrollments db @ [e]"
proof -
  let ?b = "\<lparr>b_start_date = Some (ISO d), b_plan_id = Some pid, b_student_id = Some sid\<rparr>"
  show ?thesis
  proof (cases rule: store_cases [of ?b multiply sendMail now db])
    case (persisted d' pid' sid' st pl')
    then have eq: "d' = d" "pid' = pid" "sid' = sid" "pl' = pl" using assms(2) by simp_all
    from assms(1) persisted(2-5) show ?thesis
      unfolding eq by (simp add: store_persisting Let_def split: if_splits)
  qed (use assms(1) in simp_all)
qed

lemma update_ok_row:
  assumes "fst (update multiply now db d pid sid) = Json 200 (Body e')"
    and "plans db pid = Some pl"
  shows "\<exists>old. old \<in> set (enrollments db) \<and> e' = set_fields multiply d pid sid pl old \<and>
           enrollments (snd (update multiply now db d pid sid)) =
           map (\<lambda>r. if e_id r = e_id old then set_fields multiply d pid sid pl r else r)
             (enrollments db)"
proof (cases rule: update_cases [of sid db multiply now d pid])
  case (rewritten old st pl')
  then have eq: "pl' = pl" using assms(2) by simp
  note upd = update_rewriting [OF rewritten [unfolded eq], of multiply]
  from rewritten(1) have "old \<in> set (enrollments db)" using findOne_SomeD by blast
  with assms(1) upd show ?thesis by auto
qed (use assms(1) in simp_all)

text \<open>
  Claim C2: after a successful \<open>store\<close> or \<open>update\<close> with plan \<open>p\<close> the persisted price is
  \<open>p.price * p.duration\<close> in exact decimal arithmetic, without floating-point drift; 129.90
  times 3 gives exactly 389.70. The handlers multiply JavaScript numbers. The number that
  \<open>129.90\<close> denotes times 3 lies halfway between two numbers and is rounded to the even
  one, which is the number above the one that \<open>389.70\<close> denotes: the row holds
  389.70000000000005, which is neither the number of \<open>389.70\<close> nor the exact product of the
  stored price and 3.
\<close>

theorem price_not_exact_decimal:
  "nearest_binary64 (1299 / 10) (p_price quarterly) \<and> p_duration quarterly = 3 \<and>
   fst (store js_times (\<lambda>m. True) jan01_0000 gym64 quarterly_body) =
     Json 200 (Body quarterly_row) \<and>
   enrollments (snd (store js_times (\<lambda>m. True) jan01_0000 gym64 quarterly_body)) =
     [quarterly_row] \<and>
   enrollments (snd (update js_times jan01_0000 gym64_enrolled jan10_0900 2 1)) =
     [quarterly_row] \<and>
   price quarterly_row = n389_7_up \<and>
   nearest_binary64 (3897 / 10) n389_7 \<and>
   \<not> nearest_binary64 (3897 / 10) (price quarterly_row) \<and>
   value_of (price quarterly_row) \<noteq> value_of (p_price quarterly) * 3"
proof -
  have times: "js_times n129_9 3 = n389_7_up"
    by (simp add: n129_9_def n389_7_up_def number_defs Let_def)
  have a: "nearest_binary64 (1299 / 10) (p_price quarterly)"
    by (simp add: quarterly_def n129_9_def exp2_def Let_def)
  have b: "nearest_binary64 (3897 / 10) n389_7"
    by (simp add: n389_7_def exp2_def Let_def)
  have c: "\<not> nearest_binary64 (3897 / 10) (price quarterly_row)"
    by (simp add: quarterly_row_def n389_7_up_def exp2_def Let_def)
  have d: "value_of (price quarterly_row) \<noteq> value_of (p_price quarterly) * 3"
    by (simp add: quarterly_row_def quarterly_def n389_7_up_def n129_9_def exp2_def)
  have s: "store js_times (\<lambda>m. True) jan01_0000 gym64 quarterly_body =
      (Json 200 (Body quarterly_row),
       gym64_enrolled\<lparr>outbox := [enrollment_mail ana quarterly quarterly_row]\<rparr>)"
    by (simp add: store_def findOne_def Let_def times gym64_def gym64_enrolled_def
        quarterly_body_def quarterly_row_def quarterly_def jan01_0000_def jan10_0900_def
        apr10_0900_def date_defs)
  have u: "enrollments (snd (update js_times jan01_0000 gym64_enrolled jan10_0900 2 1)) =
      [quarterly_row]"
    by (simp add: update_def findOne_def Let_def times gym64_def gym64_enrolled_def
        quarterly_row_def quarterly_def ana_def jan01_0000_def jan10_0900_def
        apr10_0900_def date_defs)
  have "p_duration quarterly = 3" "price quarterly_row = n389_7_up"
    by (simp_all add: quarterly_def quarterly_row_def)
  with a b c d s u show ?thesis by (simp add: gym64_enrolled_def)
qed

text \<open>
  Claim C2, amended: after a successful \<open>store\<close> or \<open>update\<close> with plan \<open>pl\<close> the persisted
  price is the binary64 product of \<open>p_price pl\<close> and \<open>p_duration pl\<close>: for \<open>store\<close> the table is
  the old one followed by the returned row, which has that price; for \<open>update\<close> the
  returned row is in the table and every row with its id has that price. For a price with
  a full significand and a duration other than zero, a finite product is the number
  nearest to the exact product, with ties to the even significand.
\<close>

theorem price_is_binary64_product:
  assumes "plans db pid = Some pl"
  shows "(fst (store js_times sendMail now db
             \<lparr>b_start_date = Some (ISO d), b_plan_id = Some pid, b_student_id = Some sid\<rparr>) =
            Json 200 (Body e) \<longrightarrow>
          enrollments (snd (store js_times sendMail now db
             \<lparr>b_start_date = Some (ISO d), b_plan_id = Some pid, b_student_id = Some sid\<rparr>)) =
            enrollments db @ [e] \<and>
          price e = js_times (p_price pl) (p_duration pl)) \<and>
         (fst (update js_times now db d pid sid) = Json 200 (Body e') \<longrightarrow>
          e' \<in> set (enrollments (snd (update js_times now db d pid sid))) \<and>
          price e' = js_times (p_price pl) (p_duration pl) \<and>
          (\<forall>r\<in>set (enrollments (snd (update js_times now db d pid sid))).
             e_id r = e_id e' \<longrightarrow> price r = js_times (p_price pl) (p_duration pl))) \<and>
         (p_price pl = Finite m x \<and> 2 ^ 52 \<le> \<bar>m\<bar> \<and> - 1074 \<le> x \<and> p_duration pl \<noteq> 0 \<and>
          js_times (p_price pl) (p_duration pl) = Finite m' x' \<longrightarrow>
          nearest_binary64 (value_of (p_price pl) * of_int (p_duration pl)) (Finite m' x'))"
proof (intro conjI impI)
  let ?b = "\<lparr>b_start_date = Some (ISO d), b_plan_id = Some pid, b_student_id = Some sid\<rparr>"
  let ?p = "js_times (p_price pl) (p_duration pl)"
  {
    assume ok: "fst (store js_times sendMail now db ?b) = Json 200 (Body e)"
    from store_ok_row [OF ok assms]
    show "enrollments (snd (store js_times sendMail now db ?b)) = enrollments db @ [e]"
      and "price e = ?p"
      by (simp_all add: new_row_def)
  }
  {
    assume ok: "fst (update js_times now db d pid sid) = Json 200 (Body e')"
    from update_ok_row [OF ok assms] obtain old where old: "old \<in> set (enrollments db)"
      and e': "e' = set_fields js_times d pid sid pl old"
      and rows: "enrollments (snd (update js_times now db d pid sid)) =
           map (\<lambda>r. if e_id r = e_id old then set_fields js_times d pid sid pl r else r)
             (enrollments db)"
      by blast
    have id: "e_id e' = e_id old" by (simp add: e' set_fields_def)
    show "e' \<in> set (enrollments (snd (update js_times now db d pid sid)))"
      using old by (auto simp: rows e' image_iff intro!: bexI [of _ old])
    show "price e' = ?p" by (simp add: e' set_fields_def)
    show "\<forall>r\<in>set (enrollments (snd (update js_times now db d pid sid))).
             e_id r = e_id e' \<longrightarrow> price r = ?p"
      by (auto simp: rows id set_fields_def)
  }
  {
    assume h: "p_price pl = Finite m x \<and> 2 ^ 52 \<le> \<bar>m\<bar> \<and> - 1074 \<le> x \<and> p_duration pl \<noteq> 0 \<and>
          js_times (p_price pl) (p_duration pl) = Finite m' x'"
    then have pr: "p_price pl = Finite m x" and m: "2 ^ 52 \<le> \<bar>m\<bar>" and x: "- 1074 \<le> x"
      and dur: "p_duration pl \<noteq> 0"
      and res: "js_times (p_price pl) (p_duration pl) = Finite m' x'"
      by blast+
    from res have "js_times (Finite m x) (p_duration pl) = Finite m' x'"
      unfolding pr .
    from js_times_nearest [OF m x dur this]
    show "nearest_binary64 (value_of (p_price pl) * of_int (p_duration pl)) (Finite m' x')"
      unfolding pr .
  }
qed

theorem price_is_binary64_product_witness:
  "plans gym64 2 = Some quarterly \<and> plans gym64_enrolled 2 = Some quarterly \<and>
   fst (store js_times (\<lambda>m. True) jan01_0000 gym64 quarterly_body) =
     Json 200 (Body quarterly_row) \<and>
   enrollments (snd (store js_times (\<lambda>m. True) jan01_0000 gym64 quarterly_body)) =
     [quarterly_row] \<and>
   fst (update js_times jan01_0000 gym64_enrolled jan10_0900 2 1) = Json 200 (Body quarterly_row) \<and>
   quarterly_row \<in> set (enrollments (snd (update js_times jan01_0000 gym64_enrolled jan10_0900 2 1))) \<and>
   price quarterly_row = js_times (p_price quarterly) (p_duration quarterly) \<and>
   js_times (p_price quarterly) (p_duration quarterly) = n389_7_up \<and>
   nearest_binary64 (value_of (p_price quarterly) * of_int (p_duration quarterly)) n389_7_up"
proof -
  have times: "js_times n129_9 3 = n389_7_up"
    by (simp add: n129_9_def n389_7_up_def number_defs Let_def)
  have p: "plans gym64 2 = Some quarterly" by (simp add: gym64_def)
  have p': "plans gym64_enrolled 2 = Some quarterly" by (simp add: gym64_def gym64_enrolled_def)
  have g: "enrollments gym64 = []" by (simp add: gym64_def)
  have b: "quarterly_body =
      \<lparr>b_start_date = Some (ISO jan10_0900), b_plan_id = Some 2, b_student_id = Some 1\<rparr>"
    by (simp add: quarterly_body_def)
  have s: "fst (store js_times (\<lambda>m. True) jan01_0000 gym64 quarterly_body) =
      Json 200 (Body quarterly_row)"
    by (simp add: store_def findOne_def Let_def times gym64_def
        quarterly_body_def quarterly_row_def quarterly_def jan01_0000_def jan10_0900_def
        apr10_0900_def date_defs)
  have u: "fst (update js_times jan01_0000 gym64_enrolled jan10_0900 2 1) =
      Json 200 (Body quarterly_row)"
    by (simp add: update_def findOne_def Let_def times gym64_def gym64_enrolled_def
        quarterly_row_def quarterly_def ana_def jan01_0000_def jan10_0900_def
        apr10_0900_def date_defs)
  have t: "js_times (p_price quarterly) (p_duration quarterly) = n389_7_up"
    by (simp add: quarterly_def times)
  have h: "p_price quarterly = Finite 4570449934339277 (- 45) \<and>
      2 ^ 52 \<le> \<bar>4570449934339277 :: int\<bar> \<and> - 1074 \<le> (- 45 :: int) \<and>
      p_duration quarterly \<noteq> 0 \<and>
      js_times (p_price quarterly) (p_duration quarterly) = Finite 6855674901508916 (- 44)"
    using t by (simp add: quarterly_def n129_9_def n389_7_up_def)
  note inst = price_is_binary64_product [OF p, of "\<lambda>m. True" jan01_0000 jan10_0900 1
      quarterly_row quarterly_row 4570449934339277 "- 45" 6855674901508916 "- 44"]
  note inst' = price_is_binary64_product [OF p', of "\<lambda>m. True" jan01_0000 jan10_0900 1
      quarterly_row quarterly_row 4570449934339277 "- 45" 6855674901508916 "- 44"]
  from inst s g have a1: "enrollments (snd (store js_times (\<lambda>m. True) jan01_0000 gym64 quarterly_body)) =
     [quarterly_row]" and a2: "price quarterly_row = js_times (p_price quarterly) (p_duration quarterly)"
    unfolding b by simp_all
  from inst' u have a3: "quarterly_row \<in> set (enrollments (snd (update js_times jan01_0000 gym64_enrolled jan10_0900 2 1)))"
    by blast
  from inst h have a4: "nearest_binary64 (value_of (p_price quarterly) * of_int (p_duration quarterly))
      (Finite 6855674901508916 (- 44))"
    by blast
  from p p' s u a1 a2 a3 a4 t show ?thesis by (simp add: n389_7_up_def)
qed

end
